theory Spec2Isabelle
  imports Main "HOL-Library.Word" "HOL-Library.Multiset"
begin

unbundle bit_operations_syntax

section \<open>Data model\<close>

text \<open>
  \<^verbatim>\<open>using FieldValue = std::variant<int, float, std::string, bool>\<close>.
  An \<^verbatim>\<open>int\<close> is a 32-bit word read as two's complement; a \<^verbatim>\<open>float\<close> is
  kept as its IEEE-754 binary32 bit pattern, which is what reaches the data file
  and what the comparison operators of the language inspect.
\<close>

datatype FieldValue = IntV "32 word" | FloatV "32 word" | StrV string | BoolV bool

text \<open>
  What the C++ run can end in besides a normal return: the exception of
  \<^verbatim>\<open>std::get\<close> on the wrong alternative; the use of a scalar variable that a
  short read has left uninitialised (undefined behaviour); the exception of a
  string constructed with a negative length; a call through a null index handle
  (undefined behaviour); element 0 of an empty vector (undefined behaviour); and
  a loop that makes no progress and so never ends.
\<close>

datatype error =
  BadVariantAccess | ShortRead | LengthError | NullIndexHandle | EmptyVectorAccess | NoProgress

text \<open>\<^verbatim>\<open>variant::index()\<close>: the position of the alternative held.\<close>

fun index :: "FieldValue \<Rightarrow> nat" where
  "index (IntV _) = 0"
| "index (FloatV _) = 1"
| "index (StrV _) = 2"
| "index (BoolV _) = 3"

fun holds_int :: "FieldValue \<Rightarrow> bool" where
  "holds_int (IntV _) = True"
| "holds_int _ = False"

fun holds_float :: "FieldValue \<Rightarrow> bool" where
  "holds_float (FloatV _) = True"
| "holds_float _ = False"

fun holds_string :: "FieldValue \<Rightarrow> bool" where
  "holds_string (StrV _) = True"
| "holds_string _ = False"

fun holds_bool :: "FieldValue \<Rightarrow> bool" where
  "holds_bool (BoolV _) = True"
| "holds_bool _ = False"

text \<open>\<^verbatim>\<open>std::get<T>\<close> throws \<^verbatim>\<open>std::bad_variant_access\<close> on another alternative.\<close>

fun get_int :: "FieldValue \<Rightarrow> error + 32 word" where
  "get_int (IntV i) = Inr i"
| "get_int _ = Inl BadVariantAccess"

fun get_float :: "FieldValue \<Rightarrow> error + 32 word" where
  "get_float (FloatV f) = Inr f"
| "get_float _ = Inl BadVariantAccess"

fun get_string :: "FieldValue \<Rightarrow> error + string" where
  "get_string (StrV s) = Inr s"
| "get_string _ = Inl BadVariantAccess"

fun get_bool :: "FieldValue \<Rightarrow> error + bool" where
  "get_bool (BoolV b) = Inr b"
| "get_bool _ = Inl BadVariantAccess"

text \<open>Both operands fetched with the same \<^verbatim>\<open>std::get<T>\<close>, then compared.\<close>

definition get2 ::
  "(FieldValue \<Rightarrow> error + 'a) \<Rightarrow> ('a \<Rightarrow> 'a \<Rightarrow> bool) \<Rightarrow> FieldValue \<Rightarrow> FieldValue \<Rightarrow> error + bool" where
  "get2 g rel l r =
     (case g l of
        Inl e \<Rightarrow> Inl e
      | Inr a \<Rightarrow> (case g r of Inl e \<Rightarrow> Inl e | Inr b \<Rightarrow> Inr (rel a b)))"

subsection \<open>The built-in comparisons of the three ordered alternatives\<close>

definition int_less :: "32 word \<Rightarrow> 32 word \<Rightarrow> bool" where
  "int_less a b = (sint a < sint b)"

definition int_le :: "32 word \<Rightarrow> 32 word \<Rightarrow> bool" where
  "int_le a b = (sint a \<le> sint b)"

text \<open>
  IEEE-754 binary32 on the bit pattern: a NaN (exponent all ones, fraction not
  zero) compares false with everything; otherwise the order is that of the
  sign-and-magnitude reading, in which the two zeros coincide.
\<close>

definition f32_is_nan :: "32 word \<Rightarrow> bool" where
  "f32_is_nan w = (w AND 0x7F800000 = 0x7F800000 \<and> w AND 0x007FFFFF \<noteq> 0)"

definition f32_key :: "32 word \<Rightarrow> int" where
  "f32_key w = (if bit w 31 then - uint (w AND 0x7FFFFFFF) else uint (w AND 0x7FFFFFFF))"

definition float_eq :: "32 word \<Rightarrow> 32 word \<Rightarrow> bool" where
  "float_eq a b = (\<not> f32_is_nan a \<and> \<not> f32_is_nan b \<and> f32_key a = f32_key b)"

definition float_less :: "32 word \<Rightarrow> 32 word \<Rightarrow> bool" where
  "float_less a b = (\<not> f32_is_nan a \<and> \<not> f32_is_nan b \<and> f32_key a < f32_key b)"

definition float_le :: "32 word \<Rightarrow> 32 word \<Rightarrow> bool" where
  "float_le a b = (\<not> f32_is_nan a \<and> \<not> f32_is_nan b \<and> f32_key a \<le> f32_key b)"

text \<open>
  \<^verbatim>\<open>std::string::compare\<close>: the first differing character decides, characters
  read as unsigned bytes; a proper prefix is smaller.
\<close>

fun string_less :: "string \<Rightarrow> string \<Rightarrow> bool" where
  "string_less [] [] = False"
| "string_less [] (y # ys) = True"
| "string_less (x # xs) [] = False"
| "string_less (x # xs) (y # ys) =
     (if (of_char x :: nat) < of_char y then True
      else if (of_char y :: nat) < of_char x then False
      else string_less xs ys)"

text \<open>The order on characters that a lexicographic order of strings is built from.\<close>

definition byte_less :: "(char \<times> char) set" where
  "byte_less = {(c, d). (of_char c :: nat) < of_char d}"

subsection \<open>\<^verbatim>\<open>operator==\<close> and \<^verbatim>\<open>operator!=\<close> of \<^verbatim>\<open>database_manager.h\<close>\<close>

definition fv_eq :: "FieldValue \<Rightarrow> FieldValue \<Rightarrow> error + bool" where
  "fv_eq lhs rhs =
     (if holds_int lhs \<and> holds_int rhs then get2 get_int (=) lhs rhs
      else if holds_float lhs \<and> holds_float rhs then get2 get_float float_eq lhs rhs
      else if holds_string lhs \<and> holds_string rhs then get2 get_string (=) lhs rhs
      else if holds_bool lhs \<and> holds_bool rhs then get2 get_bool (=) lhs rhs
      else Inr False)"

definition fv_neq :: "FieldValue \<Rightarrow> FieldValue \<Rightarrow> error + bool" where
  "fv_neq lhs rhs = (case fv_eq lhs rhs of Inl e \<Rightarrow> Inl e | Inr b \<Rightarrow> Inr (\<not> b))"

subsection \<open>\<^verbatim>\<open>compareValues\<close> of \<^verbatim>\<open>DatabaseManager.cpp\<close>\<close>

definition compareValues :: "FieldValue \<Rightarrow> FieldValue \<Rightarrow> string \<Rightarrow> error + bool" where
  "compareValues left right op =
     (if index left \<noteq> index right then Inr False
      else if op = ''='' then fv_eq left right
      else if op = ''!='' then fv_neq left right
      else if op = ''>'' then
        (if holds_int left then get2 get_int (\<lambda>a b. int_less b a) left right
         else if holds_float left then get2 get_float (\<lambda>a b. float_less b a) left right
         else if holds_string left then get2 get_string (\<lambda>a b. string_less b a) left right
         else Inr False)
      else if op = ''<'' then
        (if holds_int left then get2 get_int int_less left right
         else if holds_float left then get2 get_float float_less left right
         else if holds_string left then get2 get_string string_less left right
         else Inr False)
      else if op = ''>='' then
        (if holds_int left then get2 get_int (\<lambda>a b. int_le b a) left right
         else if holds_float left then get2 get_float (\<lambda>a b. float_le b a) left right
         else if holds_string left then get2 get_string (\<lambda>a b. \<not> string_less a b) left right
         else Inr False)
      else if op = ''<='' then
        (if holds_int left then get2 get_int int_le left right
         else if holds_float left then get2 get_float float_le left right
         else if holds_string left then get2 get_string (\<lambda>a b. \<not> string_less b a) left right
         else Inr False)
      else Inr False)"

section \<open>Schema\<close>

text \<open>
  Modelled from the spec: the structs \<^verbatim>\<open>Column\<close> and \<^verbatim>\<open>TableSchema\<close> of
  \<^verbatim>\<open>catalog.h\<close>, which is not among the sources. The spec (section 3) gives a
  column a name, a type among INT, FLOAT, STRING, CHAR and BOOL, a length (an
  unsigned number, used by STRING and CHAR), and the primary-key flag; a table
  schema has a name, the ordered columns and the two file paths. The
  foreign-key fields play no part in the functions modelled here.
\<close>

datatype ColumnType = ColINT | ColFLOAT | ColSTRING | ColCHAR | ColBOOL

record Column =
  name :: string
  ctype :: ColumnType
  clength :: nat
  is_primary_key :: bool

record TableSchema =
  tname :: string
  columns :: "Column list"
  data_file_path :: string
  index_file_path :: string

type_synonym Record = "string \<rightharpoonup> FieldValue"

section \<open>Field codec\<close>

text \<open>
  The four bytes of an \<^verbatim>\<open>int\<close> (or of a \<^verbatim>\<open>float\<close>) as
  \<^verbatim>\<open>file.write(reinterpret_cast<const char*>(&val), sizeof(val))\<close> lays them out
  on a little-endian machine, and their reading back.
\<close>

definition int_bytes :: "32 word \<Rightarrow> string" where
  "int_bytes w =
     [char_of (unat w), char_of (unat (drop_bit 8 w)),
      char_of (unat (drop_bit 16 w)), char_of (unat (drop_bit 24 w))]"

definition bytes_int :: "string \<Rightarrow> 32 word" where
  "bytes_int bs =
     of_nat (of_char (bs ! 0) + 256 * of_char (bs ! 1) + 65536 * of_char (bs ! 2)
             + 16777216 * of_char (bs ! 3))"

text \<open>\<^verbatim>\<open>std::string::resize(n, '\0')\<close>: cut to \<open>n\<close> characters or pad with NULs.\<close>

definition resize :: "string \<Rightarrow> nat \<Rightarrow> string" where
  "resize s n = take n s @ replicate (n - length s) (CHR 0x00)"

text \<open>
  \<^verbatim>\<open>DatabaseManager::serializeField\<close>: the bytes written for one field. For a
  STRING column the value is resized first and \<^verbatim>\<open>int len = val.size()\<close> is
  taken from the resized string: a 32-bit integer, written as the prefix and
  passed to \<^verbatim>\<open>file.write(val.c_str(), len)\<close>, which writes nothing for a
  negative count.
\<close>

definition serializeField :: "FieldValue \<Rightarrow> Column \<Rightarrow> error + string" where
  "serializeField v column =
     (case ctype column of
        ColINT \<Rightarrow> (case get_int v of Inl e \<Rightarrow> Inl e | Inr val \<Rightarrow> Inr (int_bytes val))
      | ColFLOAT \<Rightarrow> (case get_float v of Inl e \<Rightarrow> Inl e | Inr val \<Rightarrow> Inr (int_bytes val))
      | ColSTRING \<Rightarrow>
          (case get_string v of
             Inl e \<Rightarrow> Inl e
           | Inr s \<Rightarrow>
               (let val = resize s (clength column);
                    len = (of_nat (length val) :: 32 word)
                in Inr (int_bytes len @ (if sint len < 0 then [] else take (nat (sint len)) val))))
      | ColCHAR \<Rightarrow>
          (case get_string v of
             Inl e \<Rightarrow> Inl e
           | Inr s \<Rightarrow> Inr (take (clength column) (resize s (clength column))))
      | ColBOOL \<Rightarrow>
          (case get_bool v of
             Inl e \<Rightarrow> Inl e
           | Inr val \<Rightarrow> Inr [if val then CHR 0x01 else CHR 0x00]))"

text \<open>
  An input file stream: the bytes from the read position to the end of the
  file, and whether the stream is still good. \<^verbatim>\<open>read(buf, n)\<close> on a good
  stream with at least \<open>n\<close> bytes left delivers them; with fewer it delivers
  what is left and the stream fails; a failed stream delivers nothing.
\<close>

type_synonym istream = "string \<times> bool"

definition stream_read :: "nat \<Rightarrow> istream \<Rightarrow> string \<times> istream" where
  "stream_read n s =
     (if \<not> snd s then ([], s)
      else if n \<le> length (fst s) then (take n (fst s), (drop n (fst s), True))
      else (fst s, ([], False)))"

text \<open>
  \<^verbatim>\<open>DatabaseManager::deserializeField\<close>: the value and the stream after it.
  A string is constructed with NULs at its full length before the read, so a
  short read gives the bytes that were there followed by NULs. A scalar
  (\<^verbatim>\<open>int\<close>, \<^verbatim>\<open>float\<close>, \<^verbatim>\<open>bool\<close>, and the \<^verbatim>\<open>int len\<close> of a STRING) that is
  read short stays uninitialised and is then used: \<open>ShortRead\<close>. A negative
  \<^verbatim>\<open>len\<close> makes the string constructor throw.
\<close>

definition deserializeField :: "istream \<Rightarrow> Column \<Rightarrow> error + (FieldValue \<times> istream)" where
  "deserializeField s column =
     (case ctype column of
        ColINT \<Rightarrow>
          (let (got, s1) = stream_read 4 s
           in if length got < 4 then Inl ShortRead else Inr (IntV (bytes_int got), s1))
      | ColFLOAT \<Rightarrow>
          (let (got, s1) = stream_read 4 s
           in if length got < 4 then Inl ShortRead else Inr (FloatV (bytes_int got), s1))
      | ColSTRING \<Rightarrow>
          (let (got, s1) = stream_read 4 s
           in if length got < 4 then Inl ShortRead
              else
                (let len = bytes_int got in
                 if sint len < 0 then Inl LengthError
                 else
                   (let (payload, s2) = stream_read (unat len) s1
                    in Inr (StrV (payload @ replicate (unat len - length payload) (CHR 0x00)), s2))))
      | ColCHAR \<Rightarrow>
          (let (payload, s1) = stream_read (clength column) s
           in Inr (StrV (payload @ replicate (clength column - length payload) (CHR 0x00)), s1))
      | ColBOOL \<Rightarrow>
          (let (got, s1) = stream_read 1 s
           in if length got < 1 then Inl ShortRead else Inr (BoolV (got ! 0 \<noteq> CHR 0x00), s1)))"

section \<open>Value literals\<close>

text \<open>
  \<^verbatim>\<open>std::stoi\<close>: leading white space is skipped, an optional sign and the longest
  run of decimal digits are read, and what follows is ignored. No digit, or a
  value outside the range of \<^verbatim>\<open>int\<close>, throws: \<open>None\<close>.
\<close>

definition isspace :: "char \<Rightarrow> bool" where
  "isspace c = (c = CHR '' '' \<or> (9 \<le> (of_char c :: nat) \<and> (of_char c :: nat) \<le> 13))"

definition isdigit :: "char \<Rightarrow> bool" where
  "isdigit c = (48 \<le> (of_char c :: nat) \<and> (of_char c :: nat) \<le> 57)"

definition decimal :: "string \<Rightarrow> nat" where
  "decimal ds = foldl (\<lambda>acc c. 10 * acc + (of_char c - 48)) 0 ds"

text \<open>The text after the white space: whether a minus sign leads, and the rest.\<close>

definition strip_sign :: "string \<Rightarrow> bool \<times> string" where
  "strip_sign s =
     (case s of
        [] \<Rightarrow> (False, [])
      | c # cs \<Rightarrow> if c = CHR ''-'' then (True, cs) else if c = CHR ''+'' then (False, cs) else (False, s))"

definition stoi :: "string \<Rightarrow> 32 word option" where
  "stoi str =
     (let (neg, rest) = strip_sign (dropWhile isspace str);
          ds = takeWhile isdigit rest;
          v = (if neg then - int (decimal ds) else int (decimal ds))
      in if ds = [] then None
         else if v < - (2 ^ 31) \<or> 2 ^ 31 - 1 < v then None
         else Some (of_int v))"

text \<open>
  \<^verbatim>\<open>std::stof\<close>: it throws unless, after white space and an optional sign, the
  text starts a decimal or hexadecimal number (a digit, or a point and a digit)
  or one of the words \<^verbatim>\<open>inf\<close> and \<^verbatim>\<open>nan\<close> in any case. The conversion of an
  accepted text to binary32, which may still throw for a value out of range, is
  the library's floating-point arithmetic and is taken as the parameter \<open>cvt\<close>.
\<close>

definition tolower :: "char \<Rightarrow> char" where
  "tolower c = (if 65 \<le> (of_char c :: nat) \<and> (of_char c :: nat) \<le> 90 then char_of ((of_char c :: nat) + 32) else c)"

definition float_prefix :: "string \<Rightarrow> bool" where
  "float_prefix str =
     (let rest = snd (strip_sign (dropWhile isspace str)) in
      (case rest of
         [] \<Rightarrow> False
       | c # cs \<Rightarrow>
           isdigit c
           \<or> (c = CHR ''.'' \<and> (case cs of [] \<Rightarrow> False | d # _ \<Rightarrow> isdigit d))
           \<or> map tolower (take 3 rest) = ''inf''
           \<or> map tolower (take 3 rest) = ''nan''))"

definition stof :: "(string \<Rightarrow> 32 word option) \<Rightarrow> string \<Rightarrow> 32 word option" where
  "stof cvt str = (if float_prefix str then cvt str else None)"

text \<open>\<^verbatim>\<open>std::string::substr(pos, n)\<close> for \<open>pos\<close> within the string.\<close>

definition substr :: "string \<Rightarrow> nat \<Rightarrow> nat \<Rightarrow> string" where
  "substr s pos n = take n (drop pos s)"

text \<open>
  \<^verbatim>\<open>QueryParser::parseValue\<close>. The outer \<open>None\<close> stands for the one path on
  which the C++ has no defined result: \<^verbatim>\<open>front()\<close> of an empty string. The
  length passed to \<^verbatim>\<open>substr\<close> is computed in \<^verbatim>\<open>size_t\<close> and wraps around.
\<close>

definition parseValue :: "(string \<Rightarrow> 32 word option) \<Rightarrow> string \<Rightarrow> FieldValue option" where
  "parseValue cvt value_str =
     (case stoi value_str of
        Some i \<Rightarrow> Some (IntV i)
      | None \<Rightarrow>
          (case stof cvt value_str of
             Some f \<Rightarrow> Some (FloatV f)
           | None \<Rightarrow>
               if value_str = ''true'' \<or> value_str = ''TRUE'' then Some (BoolV True)
               else if value_str = ''false'' \<or> value_str = ''FALSE'' then Some (BoolV False)
               else if value_str = [] then None
               else if hd value_str = CHR 0x27 \<and> last value_str = CHR 0x27
                 then Some (StrV (substr value_str 1 ((length value_str + 2 ^ 64 - 2) mod 2 ^ 64)))
               else Some (StrV value_str)))"

text \<open>
  What "recognised case-insensitively" asks of a spelling: it is \<^verbatim>\<open>true\<close> or
  \<^verbatim>\<open>false\<close> once every letter is lowered.
\<close>

definition bool_word_ci :: "string \<Rightarrow> bool" where
  "bool_word_ci s = (map tolower s = ''true'' \<or> map tolower s = ''false'')"

section \<open>Storage\<close>

text \<open>
  Modelled from the spec: the class \<^verbatim>\<open>BPlusTree\<close> of \<^verbatim>\<open>bptree.h\<close>, which is not
  among the sources. The spec (section 4.4) describes a persistent map from
  integer keys to offsets in which duplicate keys are permitted and a lookup
  returns all offsets stored under the key in insertion order. The model keeps
  the entries in insertion order; an open tree is identified by the path of its
  file, and the contents live in the file.
\<close>

type_synonym BPlusTree = "(32 word \<times> nat) list"

definition tree_insert :: "BPlusTree \<Rightarrow> 32 word \<Rightarrow> nat \<Rightarrow> BPlusTree" where
  "tree_insert t key offset = t @ [(key, offset)]"

definition tree_search :: "BPlusTree \<Rightarrow> 32 word \<Rightarrow> nat list" where
  "tree_search t key = map snd (filter (\<lambda>e. fst e = key) t)"

text \<open>
  The state of a \<^verbatim>\<open>DatabaseManager\<close>: \<^verbatim>\<open>catalog.tables\<close>, the map \<^verbatim>\<open>indexes\<close>
  from table names to open trees, the data files and index files of the file
  system by path, the renames and removals done through
  \<^verbatim>\<open>std::filesystem\<close> so far, and what has been printed to \<^verbatim>\<open>std::cerr\<close>.
  Opening an existing file and renaming are taken to succeed.
\<close>

datatype fs_op = Rename string string | Remove string

record DatabaseManager =
  tables :: "TableSchema list"
  indexes :: "string \<rightharpoonup> string"
  data_files :: "string \<rightharpoonup> string"
  index_files :: "string \<rightharpoonup> BPlusTree"
  fs_ops :: "fs_op list"
  cerr :: "string list"

definition log_err :: "string \<Rightarrow> DatabaseManager \<Rightarrow> DatabaseManager" where
  "log_err msg st = st\<lparr>cerr := cerr st @ [msg]\<rparr>"

text \<open>The loop that looks a table up by name and stops at the first match.\<close>

definition find_table :: "DatabaseManager \<Rightarrow> string \<Rightarrow> TableSchema option" where
  "find_table st table_name = find (\<lambda>t. tname t = table_name) (tables st)"

text \<open>
  The loop that sets \<^verbatim>\<open>primary_key_column\<close> to the name of the first column
  flagged as primary key; the string stays empty when there is none.
\<close>

definition primary_key_column :: "TableSchema \<Rightarrow> string" where
  "primary_key_column schema =
     (case find is_primary_key (columns schema) of Some c \<Rightarrow> name c | None \<Rightarrow> [])"

text \<open>\<^verbatim>\<open>new BPlusTree(path)\<close>: the file is created with an empty tree when missing.\<close>

definition open_tree :: "string \<Rightarrow> DatabaseManager \<Rightarrow> DatabaseManager" where
  "open_tree path st =
     (case index_files st path of
        None \<Rightarrow> st\<lparr>index_files := (index_files st)(path \<mapsto> [])\<rparr>
      | Some _ \<Rightarrow> st)"

definition tree_at :: "DatabaseManager \<Rightarrow> string \<Rightarrow> BPlusTree" where
  "tree_at st path = (case index_files st path of Some t \<Rightarrow> t | None \<Rightarrow> [])"

text \<open>\<^verbatim>\<open>DatabaseManager::createIndex\<close>.\<close>

definition createIndex :: "TableSchema \<Rightarrow> DatabaseManager \<Rightarrow> DatabaseManager" where
  "createIndex schema st =
     (case find is_primary_key (columns schema) of
        None \<Rightarrow> log_err (''No primary key found for table '' @ [CHR 0x27] @ tname schema @ [CHR 0x27]) st
      | Some _ \<Rightarrow>
          (let st1 = open_tree (index_file_path schema) st
           in st1\<lparr>indexes := (indexes st1)(tname schema \<mapsto> index_file_path schema)\<rparr>))"

subsection \<open>Records on disk\<close>

text \<open>The default written for a column that the record lacks (\<^verbatim>\<open>saveRecord\<close>).\<close>

definition default_value :: "ColumnType \<Rightarrow> FieldValue" where
  "default_value t =
     (case t of
        ColINT \<Rightarrow> IntV 0
      | ColFLOAT \<Rightarrow> FloatV 0
      | ColSTRING \<Rightarrow> StrV []
      | ColCHAR \<Rightarrow> StrV []
      | ColBOOL \<Rightarrow> BoolV False)"

text \<open>
  \<^verbatim>\<open>DatabaseManager::saveRecord\<close>: the bytes written to the stream, column by
  column, and the exception that stopped the writing, if any (the bytes of the
  columns before it have been written by then).
\<close>

fun saveRecord :: "Record \<Rightarrow> Column list \<Rightarrow> string \<times> error option" where
  "saveRecord record [] = ([], None)"
| "saveRecord record (column # rest) =
     (case (if record (name column) \<noteq> None
            then serializeField (the (record (name column))) column
            else serializeField (default_value (ctype column)) column) of
        Inl e \<Rightarrow> ([], Some e)
      | Inr bs \<Rightarrow> (let (more, thrown) = saveRecord record rest in (bs @ more, thrown)))"

text \<open>
  \<^verbatim>\<open>DatabaseManager::loadRecord\<close>: the record and the stream after it.
\<close>

fun loadRecord_from :: "istream \<Rightarrow> Column list \<Rightarrow> Record \<Rightarrow> error + (Record \<times> istream)" where
  "loadRecord_from s [] record = Inr (record, s)"
| "loadRecord_from s (column # rest) record =
     (case deserializeField s column of
        Inl e \<Rightarrow> Inl e
      | Inr (v, s1) \<Rightarrow> loadRecord_from s1 rest (record(name column \<mapsto> v)))"

definition loadRecord :: "istream \<Rightarrow> TableSchema \<Rightarrow> error + (Record \<times> istream)" where
  "loadRecord s schema = loadRecord_from s (columns schema) Map.empty"

text \<open>
  The reading skeleton shared by every scan of a data file,
  \<^verbatim>\<open>while (data_file.tellg() < file_size) { offset = tellg(); record = loadRecord(...); ... }\<close>:
  the records with the offsets they start at, and the error that ended the
  reading, if any. After a record whose reading made the stream fail,
  \<^verbatim>\<open>tellg()\<close> is -1 and the loop ends with that record as the last one. A
  record that consumes no byte leaves the loop where it was, so the C++ loop
  never ends: \<open>NoProgress\<close>.
\<close>

function read_records :: "TableSchema \<Rightarrow> string \<Rightarrow> nat \<Rightarrow> (nat \<times> Record) list \<times> error option" where
  "read_records schema file pos =
     (if pos < length file then
        (case loadRecord (drop pos file, True) schema of
           Inl e \<Rightarrow> ([], Some e)
         | Inr (record, s1) \<Rightarrow>
             if \<not> snd s1 then ([(pos, record)], None)
             else if length (fst s1) = length file - pos then ([], Some NoProgress)
             else (let (more, err) = read_records schema file (length file - length (fst s1))
                   in ((pos, record) # more, err)))
      else ([], None))"
  by pat_completeness auto
termination
proof (relation "measure (\<lambda>(schema, file, pos). length file - pos)")
  show "wf (measure (\<lambda>(schema, file, pos). length file - pos))" by simp
next
  fix schema :: TableSchema and content :: string and pos :: nat and x2 x y
  assume pos: "pos < length content"
    and loaded: "loadRecord (drop pos content, True) schema = Inr x2"
    and x2: "(x, y) = x2"
    and moved: "length (fst y) \<noteq> length content - pos"
  have read_shrinks: "length (fst (snd (stream_read n s))) \<le> length (fst s)" for n s
    by (simp add: stream_read_def)
  have field_shrinks: "length (fst s') \<le> length (fst s)"
    if "deserializeField s column = Inr (v, s')" for s column v s'
  proof (cases "ctype column")
    case ColSTRING
    obtain got s1 where r1: "stream_read 4 s = (got, s1)" by (cases "stream_read 4 s")
    obtain payload s2 where r2: "stream_read (unat (bytes_int got)) s1 = (payload, s2)"
      by (cases "stream_read (unat (bytes_int got)) s1")
    have "s' = s2"
      using that ColSTRING r1 r2
      by (simp add: deserializeField_def Let_def split: if_splits)
    moreover have "length (fst s2) \<le> length (fst s1)"
      using read_shrinks [of "unat (bytes_int got)" s1] r2 by simp
    moreover have "length (fst s1) \<le> length (fst s)"
      using read_shrinks [of 4 s] r1 by simp
    ultimately show ?thesis by simp
  next
    case ColINT
    then show ?thesis
      using that read_shrinks [of 4 s]
      by (auto simp: deserializeField_def Let_def split: prod.splits if_splits)
  next
    case ColFLOAT
    then show ?thesis
      using that read_shrinks [of 4 s]
      by (auto simp: deserializeField_def Let_def split: prod.splits if_splits)
  next
    case ColCHAR
    then show ?thesis
      using that read_shrinks [of "clength column" s]
      by (auto simp: deserializeField_def Let_def split: prod.splits if_splits)
  next
    case ColBOOL
    then show ?thesis
      using that read_shrinks [of 1 s]
      by (auto simp: deserializeField_def Let_def split: prod.splits if_splits)
  qed
  have record_shrinks: "length (fst s') \<le> length (fst s)"
    if "loadRecord_from s cols acc = Inr (r, s')" for s cols acc r s'
    using that
  proof (induction cols arbitrary: s acc)
    case Nil
    then show ?case by simp
  next
    case (Cons column rest)
    from Cons.prems obtain v s1 where
      field: "deserializeField s column = Inr (v, s1)" and
      more: "loadRecord_from s1 rest (acc(name column \<mapsto> v)) = Inr (r, s')"
      by (auto split: sum.splits)
    from Cons.IH [OF more] field_shrinks [OF field] show ?case by simp
  qed
  from loaded x2 have "loadRecord_from (drop pos content, True) (columns schema) Map.empty = Inr (x, y)"
    by (simp add: loadRecord_def)
  from record_shrinks [OF this] have "length (fst y) \<le> length content - pos" by simp
  with moved pos
  show "((schema, content, length content - length (fst y)), schema, content, pos)
               \<in> measure (\<lambda>(schema, file, pos). length file - pos)"
    by simp
qed

declare read_records.simps [simp del]

text \<open>
  \<^verbatim>\<open>DatabaseManager::insertRecord\<close>, first part: the loop over the columns that
  fetches the primary-key value. It ends the insert with \<^verbatim>\<open>false\<close> and a
  message, throws, or leaves the value (0 when no column is flagged).
\<close>

datatype pk_result = PkValue "32 word" | PkFail string | PkThrow error

definition insert_primary_key :: "TableSchema \<Rightarrow> Record \<Rightarrow> pk_result" where
  "insert_primary_key schema record =
     (case find is_primary_key (columns schema) of
        None \<Rightarrow> PkValue 0
      | Some column \<Rightarrow>
          (case record (name column) of
             None \<Rightarrow> PkFail (''Record is missing primary key '' @ [CHR 0x27] @ name column @ [CHR 0x27])
           | Some v \<Rightarrow>
               if ctype column = ColINT
               then (case get_int v of Inl e \<Rightarrow> PkThrow e | Inr k \<Rightarrow> PkValue k)
               else PkFail ''Primary key must be an integer''))"

text \<open>
  \<^verbatim>\<open>DatabaseManager::insertRecord\<close>. The result is what the call returns or
  throws, with the state it leaves. Opening the data file for appending creates
  it when it is missing. The offset is the end of the data file before the
  write: the position at which a stream opened for appending writes (whether
  \<^verbatim>\<open>tellp\<close> reports it before the first write is left to the implementation
  by the language; the model follows the source's comment "will be the record
  offset"). What \<^verbatim>\<open>saveRecord\<close> writes stays in the buffer of the stream until
  the stream is destroyed, on return or when an exception unwinds the call.
  \<^verbatim>\<open>indexes[table_name]->insert\<close> with no handle in the map is a call through
  a null pointer: the run ends there, the stream is never destroyed, and the
  data file keeps the content it had (the buffer is taken to hold the record).
\<close>

definition insertRecord ::
  "DatabaseManager \<Rightarrow> string \<Rightarrow> Record \<Rightarrow> (error + bool) \<times> DatabaseManager" where
  "insertRecord st table_name record =
     (case find_table st table_name of
        None \<Rightarrow> (Inr False, log_err (''Table '' @ [CHR 0x27] @ table_name @ [CHR 0x27] @ '' not found'') st)
      | Some schema \<Rightarrow>
          (case insert_primary_key schema record of
             PkFail msg \<Rightarrow> (Inr False, log_err msg st)
           | PkThrow e \<Rightarrow> (Inl e, st)
           | PkValue primary_key_value \<Rightarrow>
               (let st1 = (if indexes st table_name = None then createIndex schema st else st);
                    old = (case data_files st1 (data_file_path schema) of None \<Rightarrow> [] | Some bs \<Rightarrow> bs);
                    offset = length old;
                    (bytes, thrown) = saveRecord record (columns schema);
                    opened = st1\<lparr>data_files := (data_files st1)(data_file_path schema \<mapsto> old)\<rparr>;
                    st2 = st1\<lparr>data_files := (data_files st1)(data_file_path schema \<mapsto> old @ bytes)\<rparr>
                in case thrown of
                     Some e \<Rightarrow> (Inl e, st2)
                   | None \<Rightarrow>
                       (case indexes st1 table_name of
                          None \<Rightarrow> (Inl NullIndexHandle, opened)
                        | Some h \<Rightarrow>
                            (Inr True,
                             st2\<lparr>index_files :=
                                   (index_files st2)(h \<mapsto> tree_insert (tree_at st2 h) primary_key_value offset)\<rparr>)))))"

subsection \<open>Reading\<close>

text \<open>
  \<^verbatim>\<open>record.find(key_column) != record.end() && record[key_column] == key_value\<close>,
  the test of \<^verbatim>\<open>searchRecords\<close>, \<^verbatim>\<open>updateRecord\<close> and \<^verbatim>\<open>deleteRecord\<close>.
\<close>

definition matches_key :: "string \<Rightarrow> FieldValue \<Rightarrow> Record \<Rightarrow> bool" where
  "matches_key key_column key_value record =
     (case record key_column of None \<Rightarrow> False | Some v \<Rightarrow> fv_eq v key_value = Inr True)"

text \<open>
  \<^verbatim>\<open>DatabaseManager::getAllRecords\<close>: the records of the data file in file order.
\<close>

definition getAllRecords :: "DatabaseManager \<Rightarrow> string \<Rightarrow> (error + Record list) \<times> DatabaseManager" where
  "getAllRecords st table_name =
     (case find_table st table_name of
        None \<Rightarrow> (Inr [], log_err (''Table '' @ [CHR 0x27] @ table_name @ [CHR 0x27] @ '' not found'') st)
      | Some schema \<Rightarrow>
          (case data_files st (data_file_path schema) of
             None \<Rightarrow> (Inr [], log_err (''Data file not found: '' @ data_file_path schema) st)
           | Some file \<Rightarrow>
               (let (records, err) = read_records schema file 0
                in case err of Some e \<Rightarrow> (Inl e, st) | None \<Rightarrow> (Inr (map snd records), st))))"

text \<open>
  The loop \<^verbatim>\<open>for (int offset : offsets) { data_file.seekg(offset); ... loadRecord ... }\<close>
  of the two index-assisted searches, keeping the records that pass \<open>keep\<close>.
  \<open>good\<close> is the state of the stream: once it has failed, \<^verbatim>\<open>seekg\<close> does
  nothing and every read delivers nothing.
\<close>

fun load_at ::
  "TableSchema \<Rightarrow> string \<Rightarrow> (Record \<Rightarrow> bool) \<Rightarrow> bool \<Rightarrow> nat list \<Rightarrow> error + Record list" where
  "load_at schema file keep good [] = Inr []"
| "load_at schema file keep good (offset # rest) =
     (case loadRecord (drop offset file, good) schema of
        Inl e \<Rightarrow> Inl e
      | Inr (record, s1) \<Rightarrow>
          (case load_at schema file keep (snd s1) rest of
             Inl e \<Rightarrow> Inl e
           | Inr results \<Rightarrow> Inr (if keep record then record # results else results)))"

text \<open>
  \<^verbatim>\<open>DatabaseManager::searchRecords\<close>: its two branches, and the function that
  chooses between them.
\<close>

definition searchRecords_index ::
  "TableSchema \<Rightarrow> string \<Rightarrow> BPlusTree \<Rightarrow> FieldValue \<Rightarrow> error + Record list" where
  "searchRecords_index schema file tree key_value =
     (case get_int key_value of
        Inl e \<Rightarrow> Inl e
      | Inr key_int \<Rightarrow> load_at schema file (\<lambda>record. True) True (tree_search tree key_int))"

definition searchRecords_scan ::
  "TableSchema \<Rightarrow> string \<Rightarrow> string \<Rightarrow> FieldValue \<Rightarrow> error + Record list" where
  "searchRecords_scan schema file key_column key_value =
     (let (records, err) = read_records schema file 0
      in case err of
           Some e \<Rightarrow> Inl e
         | None \<Rightarrow> Inr (filter (matches_key key_column key_value) (map snd records)))"

definition searchRecords ::
  "DatabaseManager \<Rightarrow> string \<Rightarrow> string \<Rightarrow> FieldValue \<Rightarrow> (error + Record list) \<times> DatabaseManager" where
  "searchRecords st table_name key_column key_value =
     (case find_table st table_name of
        None \<Rightarrow> (Inr [], log_err (''Table '' @ [CHR 0x27] @ table_name @ [CHR 0x27] @ '' not found'') st)
      | Some schema \<Rightarrow>
          (let is_primary_key_column =
                 list_ex (\<lambda>column. name column = key_column \<and> is_primary_key column) (columns schema)
           in case data_files st (data_file_path schema) of
                None \<Rightarrow> (Inr [], log_err (''Data file not found: '' @ data_file_path schema) st)
              | Some file \<Rightarrow>
                  (case indexes st table_name of
                     Some h \<Rightarrow>
                       if is_primary_key_column
                       then (searchRecords_index schema file (tree_at st h) key_value, st)
                       else (searchRecords_scan schema file key_column key_value, st)
                   | None \<Rightarrow> (searchRecords_scan schema file key_column key_value, st))))"





subsection \<open>Rewriting\<close>

text \<open>
  \<^verbatim>\<open>record[k]\<close> on a \<^verbatim>\<open>std::map\<close>: a missing key is first inserted with a
  default-constructed value, the integer 0.
\<close>

definition subscript :: "Record \<Rightarrow> string \<Rightarrow> FieldValue \<times> Record" where
  "subscript record k =
     (case record k of Some v \<Rightarrow> (v, record) | None \<Rightarrow> (IntV 0, record(k \<mapsto> IntV 0)))"

text \<open>
  The loop of \<^verbatim>\<open>DatabaseManager::updateRecord\<close> over the records read, on the
  state made of the bytes written to the temporary file so far,
  \<^verbatim>\<open>record_found\<close>, \<^verbatim>\<open>primary_key_changed\<close> and \<^verbatim>\<open>offset_map\<close>; with the
  exception that ended it, if any.
\<close>

type_synonym update_state = "string \<times> bool \<times> bool \<times> (nat \<rightharpoonup> nat)"

fun update_loop ::
  "Column list \<Rightarrow> string \<Rightarrow> string \<Rightarrow> FieldValue \<Rightarrow> Record \<Rightarrow> (nat \<times> Record) list
     \<Rightarrow> update_state \<Rightarrow> update_state \<times> error option" where
  "update_loop cols pkc key_column key_value new_values [] s = (s, None)"
| "update_loop cols pkc key_column key_value new_values ((old_offset, record) # rest)
       (temp, record_found, primary_key_changed, offset_map) =
     (let new_offset = length temp in
      if matches_key key_column key_value record then
        (if pkc \<noteq> [] \<and> new_values pkc \<noteq> None then
           (let (old_v, record1) = subscript record pkc in
            case get_int old_v of
              Inl e \<Rightarrow> ((temp, True, True, offset_map), Some e)
            | Inr old_primary_key \<Rightarrow>
                (case get_int (the (new_values pkc)) of
                   Inl e \<Rightarrow> ((temp, True, True, offset_map), Some e)
                 | Inr new_primary_key \<Rightarrow>
                     (let (bytes, thrown) = saveRecord (record1 ++ new_values) cols in
                      case thrown of
                        Some e \<Rightarrow> ((temp @ bytes, True, True, offset_map), Some e)
                      | None \<Rightarrow>
                          update_loop cols pkc key_column key_value new_values rest
                            (temp @ bytes, True, True, offset_map(old_offset \<mapsto> new_offset)))))
         else
           (let (bytes, thrown) = saveRecord (record ++ new_values) cols in
            case thrown of
              Some e \<Rightarrow> ((temp @ bytes, True, primary_key_changed, offset_map), Some e)
            | None \<Rightarrow>
                update_loop cols pkc key_column key_value new_values rest
                  (temp @ bytes, True, primary_key_changed, offset_map(old_offset \<mapsto> new_offset))))
      else
        (let (bytes, thrown) = saveRecord record cols in
         case thrown of
           Some e \<Rightarrow> ((temp @ bytes, record_found, primary_key_changed, offset_map), Some e)
         | None \<Rightarrow>
             update_loop cols pkc key_column key_value new_values rest
               (temp @ bytes, record_found, primary_key_changed, offset_map(old_offset \<mapsto> new_offset))))"

text \<open>
  The loop of \<^verbatim>\<open>updateRecord\<close> that fills the new index: the offset of a record
  is looked up through element 0 of what the old index finds for its key (no
  such element when the key is not in the old index), and
  \<^verbatim>\<open>offset_map[...]\<close> yields 0 for an offset it does not hold.
\<close>

fun update_reindex ::
  "string \<Rightarrow> BPlusTree \<Rightarrow> (nat \<rightharpoonup> nat) \<Rightarrow> Record list \<Rightarrow> BPlusTree \<Rightarrow> BPlusTree \<times> error option" where
  "update_reindex pkc old_index offset_map [] new_index = (new_index, None)"
| "update_reindex pkc old_index offset_map (record # rest) new_index =
     (case record pkc of
        None \<Rightarrow> update_reindex pkc old_index offset_map rest new_index
      | Some v \<Rightarrow>
          (case get_int v of
             Inl e \<Rightarrow> (new_index, Some e)
           | Inr key \<Rightarrow>
               (case tree_search old_index key of
                  [] \<Rightarrow> (new_index, Some EmptyVectorAccess)
                | found # _ \<Rightarrow>
                    update_reindex pkc old_index offset_map rest
                      (tree_insert new_index key
                         (case offset_map found of Some n \<Rightarrow> n | None \<Rightarrow> 0)))))"

text \<open>
  The end of both rebuilds: the two trees are closed, the temporary index file
  is renamed over the index file, and the index is opened again.
\<close>

definition replace_index :: "TableSchema \<Rightarrow> string \<Rightarrow> DatabaseManager \<Rightarrow> DatabaseManager" where
  "replace_index schema table_name st =
     (let tmp = index_file_path schema @ ''.tmp'';
          st1 = st\<lparr>index_files := (index_files st)(index_file_path schema := index_files st tmp, tmp := None),
                   fs_ops := fs_ops st @ [Rename tmp (index_file_path schema)]\<rparr>;
          st2 = open_tree (index_file_path schema) st1
      in st2\<lparr>indexes := (indexes st2)(table_name \<mapsto> index_file_path schema)\<rparr>)"

text \<open>\<^verbatim>\<open>DatabaseManager::updateRecord\<close>.\<close>

definition updateRecord ::
  "DatabaseManager \<Rightarrow> string \<Rightarrow> string \<Rightarrow> FieldValue \<Rightarrow> Record \<Rightarrow> (error + bool) \<times> DatabaseManager" where
  "updateRecord st table_name key_column key_value new_values =
     (case find_table st table_name of
        None \<Rightarrow> (Inr False, log_err (''Table '' @ [CHR 0x27] @ table_name @ [CHR 0x27] @ '' not found'') st)
      | Some schema \<Rightarrow>
          (case data_files st (data_file_path schema) of
             None \<Rightarrow> (Inr False, log_err (''Data file not found: '' @ data_file_path schema) st)
           | Some file \<Rightarrow>
               (let temp_file_path = data_file_path schema @ ''.tmp'';
                    pkc = primary_key_column schema;
                    (records, read_err) = read_records schema file 0;
                    ((temp, record_found, primary_key_changed, offset_map), thrown) =
                       update_loop (columns schema) pkc key_column key_value new_values records
                         ([], False, False, Map.empty);
                    st1 = st\<lparr>data_files := (data_files st)(temp_file_path \<mapsto> temp)\<rparr>
                in case (case thrown of Some e \<Rightarrow> Some e | None \<Rightarrow> read_err) of
                     Some e \<Rightarrow> (Inl e, st1)
                   | None \<Rightarrow>
                       if \<not> record_found then
                         (Inr False,
                          log_err ''No record found matching the criteria''
                            (st1\<lparr>data_files := (data_files st1)(temp_file_path := None),
                                 fs_ops := fs_ops st1 @ [Remove temp_file_path]\<rparr>))
                       else
                         (let st2 = st1\<lparr>data_files :=
                                          (data_files st1)(data_file_path schema \<mapsto> temp, temp_file_path := None),
                                        fs_ops := fs_ops st1 @ [Rename temp_file_path (data_file_path schema)]\<rparr>
                          in case indexes st2 table_name of
                               None \<Rightarrow> (Inr True, st2)
                             | Some h \<Rightarrow>
                                 if \<not> primary_key_changed then (Inr True, st2)
                                 else
                                   (let index_tmp = index_file_path schema @ ''.tmp'';
                                        st3 = open_tree index_tmp st2
                                    in case getAllRecords st3 table_name of
                                         (Inl e, st4) \<Rightarrow> (Inl e, st4)
                                       | (Inr all_records, st4) \<Rightarrow>
                                           (let (new_index, err) =
                                                  update_reindex pkc (tree_at st4 h) offset_map all_records
                                                    (tree_at st4 index_tmp);
                                                st5 = st4\<lparr>index_files := (index_files st4)(index_tmp \<mapsto> new_index)\<rparr>
                                            in case err of
                                                 Some e \<Rightarrow> (Inl e, st5)
                                               | None \<Rightarrow> (Inr True, replace_index schema table_name st5)))))))"

text \<open>
  The loop of \<^verbatim>\<open>DatabaseManager::deleteRecord\<close>, on the bytes written to the
  temporary file, \<^verbatim>\<open>found_record\<close>, \<^verbatim>\<open>deleted_keys\<close> and \<^verbatim>\<open>offset_map\<close>.
\<close>

type_synonym delete_state = "string \<times> bool \<times> 32 word list \<times> (nat \<rightharpoonup> nat)"

fun delete_loop ::
  "Column list \<Rightarrow> string \<Rightarrow> string \<Rightarrow> FieldValue \<Rightarrow> (nat \<times> Record) list
     \<Rightarrow> delete_state \<Rightarrow> delete_state \<times> error option" where
  "delete_loop cols pkc key_column key_value [] s = (s, None)"
| "delete_loop cols pkc key_column key_value ((old_offset, record) # rest)
       (temp, found_record, deleted_keys, offset_map) =
     (if matches_key key_column key_value record then
        (if pkc \<noteq> [] \<and> record pkc \<noteq> None then
           (case get_int (the (record pkc)) of
              Inl e \<Rightarrow> ((temp, True, deleted_keys, offset_map), Some e)
            | Inr key \<Rightarrow>
                delete_loop cols pkc key_column key_value rest
                  (temp, True, deleted_keys @ [key], offset_map))
         else delete_loop cols pkc key_column key_value rest (temp, True, deleted_keys, offset_map))
      else
        (let new_offset = length temp;
             (bytes, thrown) = saveRecord record cols in
         case thrown of
           Some e \<Rightarrow> ((temp @ bytes, found_record, deleted_keys, offset_map), Some e)
         | None \<Rightarrow>
             delete_loop cols pkc key_column key_value rest
               (temp @ bytes, found_record, deleted_keys, offset_map(old_offset \<mapsto> new_offset))))"

text \<open>
  The loop of \<^verbatim>\<open>deleteRecord\<close> that fills the new index; a record whose key the
  old index does not hold, or whose old offset is not in \<^verbatim>\<open>offset_map\<close>, is
  left out.
\<close>

fun delete_reindex ::
  "string \<Rightarrow> BPlusTree \<Rightarrow> (nat \<rightharpoonup> nat) \<Rightarrow> Record list \<Rightarrow> BPlusTree \<Rightarrow> BPlusTree \<times> error option" where
  "delete_reindex pkc old_index offset_map [] new_index = (new_index, None)"
| "delete_reindex pkc old_index offset_map (record # rest) new_index =
     (case record pkc of
        None \<Rightarrow> delete_reindex pkc old_index offset_map rest new_index
      | Some v \<Rightarrow>
          (case get_int v of
             Inl e \<Rightarrow> (new_index, Some e)
           | Inr key \<Rightarrow>
               (case tree_search old_index key of
                  [] \<Rightarrow> delete_reindex pkc old_index offset_map rest new_index
                | found # _ \<Rightarrow>
                    (case offset_map found of
                       None \<Rightarrow> delete_reindex pkc old_index offset_map rest new_index
                     | Some new_offset \<Rightarrow>
                         delete_reindex pkc old_index offset_map rest
                           (tree_insert new_index key new_offset)))))"

text \<open>\<^verbatim>\<open>DatabaseManager::deleteRecord\<close>.\<close>

definition deleteRecord ::
  "DatabaseManager \<Rightarrow> string \<Rightarrow> string \<Rightarrow> FieldValue \<Rightarrow> (error + bool) \<times> DatabaseManager" where
  "deleteRecord st table_name key_column key_value =
     (case find_table st table_name of
        None \<Rightarrow> (Inr False, log_err (''Table '' @ [CHR 0x27] @ table_name @ [CHR 0x27] @ '' not found'') st)
      | Some schema \<Rightarrow>
          (case data_files st (data_file_path schema) of
             None \<Rightarrow> (Inr False, log_err (''Data file not found: '' @ data_file_path schema) st)
           | Some file \<Rightarrow>
               (let temp_file_path = data_file_path schema @ ''.tmp'';
                    pkc = primary_key_column schema;
                    (records, read_err) = read_records schema file 0;
                    ((temp, found_record, deleted_keys, offset_map), thrown) =
                       delete_loop (columns schema) pkc key_column key_value records
                         ([], False, [], Map.empty);
                    st1 = st\<lparr>data_files := (data_files st)(temp_file_path \<mapsto> temp)\<rparr>
                in case (case thrown of Some e \<Rightarrow> Some e | None \<Rightarrow> read_err) of
                     Some e \<Rightarrow> (Inl e, st1)
                   | None \<Rightarrow>
                       if \<not> found_record then
                         (Inr False,
                          log_err ''No record found matching the criteria''
                            (st1\<lparr>data_files := (data_files st1)(temp_file_path := None),
                                 fs_ops := fs_ops st1 @ [Remove temp_file_path]\<rparr>))
                       else
                         (let st2 = st1\<lparr>data_files :=
                                          (data_files st1)(data_file_path schema \<mapsto> temp, temp_file_path := None),
                                        fs_ops := fs_ops st1 @ [Rename temp_file_path (data_file_path schema)]\<rparr>
                          in case indexes st2 table_name of
                               None \<Rightarrow> (Inr True, st2)
                             | Some h \<Rightarrow>
                                 if deleted_keys = [] then (Inr True, st2)
                                 else
                                   (let index_tmp = index_file_path schema @ ''.tmp'';
                                        st3 = open_tree index_tmp st2
                                    in case getAllRecords st3 table_name of
                                         (Inl e, st4) \<Rightarrow> (Inl e, st4)
                                       | (Inr all_records, st4) \<Rightarrow>
                                           (let (new_index, err) =
                                                  delete_reindex pkc (tree_at st4 h) offset_map all_records
                                                    (tree_at st4 index_tmp);
                                                st5 = st4\<lparr>index_files := (index_files st4)(index_tmp \<mapsto> new_index)\<rparr>
                                            in case err of
                                                 Some e \<Rightarrow> (Inl e, st5)
                                               | None \<Rightarrow> (Inr True, replace_index schema table_name st5)))))))"

section \<open>Statements\<close>

text \<open>
  The statement types that \<^verbatim>\<open>QueryParser::execute\<close> assigns, and the fields of
  \<^verbatim>\<open>current_query\<close> that its SELECT branch reads and writes. A condition is
  the tuple of column, operator and value that the branch hands to the database
  manager.
\<close>

datatype QueryType =
  CREATE_DATABASE | CREATE_TABLE | DROP_DATABASE | DROP_TABLE | USE_DATABASE | SHOW_DATABASES
  | SHOW_TABLES | INSERT | SELECT | UPDATE | DELETE_OP







section \<open>A small database for the examples\<close>

text \<open>
  A table \<^verbatim>\<open>users\<close> with an integer primary key, a STRING(3) and a BOOL column,
  and a table \<^verbatim>\<open>notes\<close> without a primary key; no file exists yet and no index
  is open.
\<close>

definition users_schema :: TableSchema where
  "users_schema =
     \<lparr>tname = ''users'',
      columns =
        [\<lparr>name = ''id'', ctype = ColINT, clength = 0, is_primary_key = True\<rparr>,
         \<lparr>name = ''name'', ctype = ColSTRING, clength = 3, is_primary_key = False\<rparr>,
         \<lparr>name = ''ok'', ctype = ColBOOL, clength = 0, is_primary_key = False\<rparr>],
      data_file_path = ''users.dat'', index_file_path = ''users.idx''\<rparr>"

definition notes_schema :: TableSchema where
  "notes_schema =
     \<lparr>tname = ''notes'',
      columns = [\<lparr>name = ''txt'', ctype = ColCHAR, clength = 2, is_primary_key = False\<rparr>],
      data_file_path = ''notes.dat'', index_file_path = ''notes.idx''\<rparr>"

definition users_db :: DatabaseManager where
  "users_db =
     \<lparr>tables = [users_schema, notes_schema], indexes = Map.empty, data_files = Map.empty,
      index_files = Map.empty, fs_ops = [], cerr = []\<rparr>"

text \<open>
  Two records with the same key, their bytes on disk, and the database after
  both have been inserted into \<^verbatim>\<open>users\<close>.
\<close>

definition ann :: Record where
  "ann = [''id'' \<mapsto> IntV 1, ''name'' \<mapsto> StrV ''ann'', ''ok'' \<mapsto> BoolV True]"

definition amy :: Record where
  "amy = [''id'' \<mapsto> IntV 1, ''name'' \<mapsto> StrV ''amy'', ''ok'' \<mapsto> BoolV False]"

definition ann_bytes :: string where
  "ann_bytes = int_bytes 1 @ int_bytes 3 @ ''ann'' @ [CHR 0x01]"

definition amy_bytes :: string where
  "amy_bytes = int_bytes 1 @ int_bytes 3 @ ''amy'' @ [CHR 0x00]"

definition amy_ok_bytes :: string where
  "amy_ok_bytes = int_bytes 1 @ int_bytes 3 @ ''amy'' @ [CHR 0x01]"

definition users_db2 :: DatabaseManager where
  "users_db2 = snd (insertRecord (snd (insertRecord users_db ''users'' ann)) ''users'' amy)"


section \<open>Comparison of field values\<close>

lemma string_less_lexord: "string_less s t \<longleftrightarrow> (s, t) \<in> lexord byte_less"
  by (induction s t rule: string_less.induct) (auto simp: byte_less_def)

lemma compareValues_total: "\<exists>b. compareValues l r op = Inr b"
  by (cases l; cases r) (auto simp: compareValues_def fv_eq_def fv_neq_def get2_def)

section \<open>Field codec: properties\<close>

lemma split4:
  assumes "n < 2 ^ 32"
  shows "n mod 256 + 256 * (n div 256 mod 256) + 65536 * (n div 65536 mod 256)
         + 16777216 * (n div 16777216 mod 256) = (n::nat)"
proof -
  define a where "a = n div 256"
  define b where "b = a div 256"
  define c where "c = b div 256"
  have n: "n = n mod 256 + 256 * a" by (simp add: a_def)
  have a: "a = a mod 256 + 256 * b" by (simp add: b_def)
  have b: "b = b mod 256 + 256 * c" by (simp add: c_def)
  have b_eq: "b = n div 65536" by (simp add: b_def a_def div_mult2_eq)
  have c_eq: "c = n div 16777216" by (simp add: c_def b_def a_def div_mult2_eq)
  have "c < 256" using assms unfolding c_eq by (simp add: less_mult_imp_div_less)
  then have c: "c mod 256 = c" by simp
  have "n mod 256 + 256 * (a mod 256) + 65536 * (b mod 256) + 16777216 * (c mod 256) = n"
    using n a b c by linarith
  then show ?thesis by (simp add: a_def [symmetric] b_eq [symmetric] c_eq [symmetric])
qed

lemma bytes_int_Cons4:
  "bytes_int [a, b, c, d] = of_nat (of_char a + 256 * of_char b + 65536 * of_char c + 16777216 * of_char d)"
  unfolding bytes_int_def by (simp del: of_nat_add of_nat_mult)

lemma bytes_int_int_bytes: "bytes_int (int_bytes w) = w"
proof -
  let ?n = "unat w"
  have lt: "?n < 2 ^ 32" using unsigned_less [of w] by simp
  have "(of_char (char_of ?n) :: nat) + 256 * of_char (char_of (unat (drop_bit 8 w)))
        + 65536 * of_char (char_of (unat (drop_bit 16 w)))
        + 16777216 * of_char (char_of (unat (drop_bit 24 w)))
      = ?n mod 256 + 256 * (?n div 256 mod 256) + 65536 * (?n div 65536 mod 256)
        + 16777216 * (?n div 16777216 mod 256)"
    by (simp add: drop_bit_eq_div unat_div)
  also have "\<dots> = ?n" using lt by (rule split4)
  finally have "bytes_int (int_bytes w) = of_nat ?n"
    unfolding int_bytes_def bytes_int_Cons4 by (rule arg_cong)
  then show ?thesis by simp
qed

lemma length_int_bytes: "length (int_bytes w) = 4" by (simp add: int_bytes_def)

lemma length_resize: "length (resize s n) = n" by (simp add: resize_def)

text \<open>
  Claim C3. Whenever the two values hold different alternatives, every
  operator string, the six comparison operators among them, yields \<open>False\<close>;
  no call ends in an exception; and for equal alternatives the four ordering
  operators are the signed order on Int, the IEEE order on Float and the
  lexicographic order on Str, while on Bool every operator other than
  \<^verbatim>\<open>=\<close> and \<^verbatim>\<open>!=\<close> yields \<open>False\<close>.
\<close>

theorem compareValues_by_tag:
  "(index l \<noteq> index r \<longrightarrow> compareValues l r op = Inr False)
   \<and> (\<exists>res. compareValues l r op = Inr res)
   \<and> compareValues (IntV a) (IntV b) ''<'' = Inr (sint a < sint b)
   \<and> compareValues (IntV a) (IntV b) ''>'' = Inr (sint b < sint a)
   \<and> compareValues (IntV a) (IntV b) ''<='' = Inr (sint a \<le> sint b)
   \<and> compareValues (IntV a) (IntV b) ''>='' = Inr (sint b \<le> sint a)
   \<and> compareValues (FloatV f) (FloatV g) ''<'' = Inr (float_less f g)
   \<and> compareValues (FloatV f) (FloatV g) ''>'' = Inr (float_less g f)
   \<and> compareValues (FloatV f) (FloatV g) ''<='' = Inr (float_le f g)
   \<and> compareValues (FloatV f) (FloatV g) ''>='' = Inr (float_le g f)
   \<and> compareValues (StrV s) (StrV t) ''<'' = Inr ((s, t) \<in> lexord byte_less)
   \<and> compareValues (StrV s) (StrV t) ''>'' = Inr ((t, s) \<in> lexord byte_less)
   \<and> compareValues (StrV s) (StrV t) ''<='' = Inr ((t, s) \<notin> lexord byte_less)
   \<and> compareValues (StrV s) (StrV t) ''>='' = Inr ((s, t) \<notin> lexord byte_less)
   \<and> (op \<noteq> ''='' \<and> op \<noteq> ''!='' \<longrightarrow> compareValues (BoolV p) (BoolV q) op = Inr False)"
proof -
  have differ: "index l \<noteq> index r \<longrightarrow> compareValues l r op = Inr False"
    by (simp add: compareValues_def)
  have ints: "compareValues (IntV a) (IntV b) ''<'' = Inr (sint a < sint b)"
    "compareValues (IntV a) (IntV b) ''>'' = Inr (sint b < sint a)"
    "compareValues (IntV a) (IntV b) ''<='' = Inr (sint a \<le> sint b)"
    "compareValues (IntV a) (IntV b) ''>='' = Inr (sint b \<le> sint a)"
    by (simp_all add: compareValues_def get2_def int_less_def int_le_def)
  have floats: "compareValues (FloatV f) (FloatV g) ''<'' = Inr (float_less f g)"
    "compareValues (FloatV f) (FloatV g) ''>'' = Inr (float_less g f)"
    "compareValues (FloatV f) (FloatV g) ''<='' = Inr (float_le f g)"
    "compareValues (FloatV f) (FloatV g) ''>='' = Inr (float_le g f)"
    by (simp_all add: compareValues_def get2_def)
  have strs: "compareValues (StrV s) (StrV t) ''<'' = Inr ((s, t) \<in> lexord byte_less)"
    "compareValues (StrV s) (StrV t) ''>'' = Inr ((t, s) \<in> lexord byte_less)"
    "compareValues (StrV s) (StrV t) ''<='' = Inr ((t, s) \<notin> lexord byte_less)"
    "compareValues (StrV s) (StrV t) ''>='' = Inr ((s, t) \<notin> lexord byte_less)"
    by (simp_all add: compareValues_def get2_def string_less_lexord)
  have bools: "op \<noteq> ''='' \<and> op \<noteq> ''!='' \<longrightarrow> compareValues (BoolV p) (BoolV q) op = Inr False"
    by (simp add: compareValues_def)
  from differ compareValues_total ints floats strs bools show ?thesis by blast
qed

text \<open>
  The theorem at a cross-tag pair, at two integers, at the floats 1.0 and 2.0,
  at two strings and at two booleans.
\<close>

theorem compareValues_by_tag_witness:
  "index (IntV 1) \<noteq> index (StrV ''1'')
   \<and> compareValues (IntV 1) (StrV ''1'') ''!='' = Inr False
   \<and> compareValues (IntV (- 1)) (IntV 2) ''<'' = Inr True
   \<and> compareValues (FloatV 0x3F800000) (FloatV 0x40000000) ''<'' = Inr True
   \<and> compareValues (FloatV 0x3F800000) (FloatV 0x40000000) ''>='' = Inr False
   \<and> compareValues (StrV ''abc'') (StrV ''abd'') ''<'' = Inr True
   \<and> compareValues (StrV ''ab'') (StrV ''abc'') ''>='' = Inr False
   \<and> ''>='' \<noteq> ''='' \<and> ''>='' \<noteq> ''!=''
   \<and> compareValues (BoolV True) (BoolV False) ''>='' = Inr False"
proof -
  have one_two: "float_less 0x3F800000 0x40000000" "\<not> float_le 0x40000000 0x3F800000"
    by (simp_all add: float_less_def float_le_def f32_is_nan_def f32_key_def)
  have words: "(''abc'', ''abd'') \<in> lexord byte_less" "(''ab'', ''abc'') \<in> lexord byte_less"
    by (simp_all add: byte_less_def)
  from one_two words
    compareValues_by_tag [where l = "IntV 1" and r = "StrV ''1''" and op = "''!=''"
      and a = "- 1" and b = 2 and f = "0x3F800000" and g = "0x40000000"
      and s = "''abc''" and t = "''abd''"]
    compareValues_by_tag [where op = "''>=''" and p = True and q = False
      and s = "''ab''" and t = "''abc''"]
  show ?thesis by simp
qed

text \<open>
  Claim C2 as stated fails: for the three-character value \<^verbatim>\<open>Ann\<close> in a
  STRING(10) column the length prefix written is 10, not \<open>min 3 10\<close>.
\<close>

theorem serializeField_string_prefix_counterexample:
  "serializeField (StrV ''Ann'')
      \<lparr>name = ''name'', ctype = ColSTRING, clength = 10, is_primary_key = False\<rparr>
     = Inr (int_bytes 10 @ ''Ann'' @ replicate 7 (CHR 0x00))
   \<and> int_bytes 10 \<noteq> int_bytes (of_nat (min (length ''Ann'') 10))"
proof -
  have written: "serializeField (StrV ''Ann'')
      \<lparr>name = ''name'', ctype = ColSTRING, clength = 10, is_primary_key = False\<rparr>
     = Inr (int_bytes 10 @ ''Ann'' @ replicate 7 (CHR 0x00))"
    by (simp add: serializeField_def resize_def)
  have differs: "int_bytes 10 \<noteq> int_bytes (of_nat (min (length ''Ann'') 10))"
    by (simp add: int_bytes_def char_of_def)
  from written differs show ?thesis by (rule conjI)
qed

lemma small_length:
  assumes "n < 2 ^ 31"
  shows "unat (of_nat n :: 32 word) = n" and "sint (of_nat n :: 32 word) = int n"
    and "\<not> sint (of_nat n :: 32 word) < 0"
proof -
  show "unat (of_nat n :: 32 word) = n"
    using assms by (simp add: unat_of_nat)
  show s: "sint (of_nat n :: 32 word) = int n"
    using assms by (simp add: signed_of_nat signed_take_bit_int_eq_self)
  show "\<not> sint (of_nat n :: 32 word) < 0" unfolding s by simp
qed

lemma deserializeField_string:
  assumes "m < 2 ^ 31" and "length payload = m"
  shows "deserializeField (int_bytes (of_nat m) @ payload @ rest, True)
            \<lparr>name = nm, ctype = ColSTRING, clength = n, is_primary_key = pk\<rparr>
          = Inr (StrV payload, (rest, True))"
  using assms
  by (simp add: deserializeField_def stream_read_def Let_def length_int_bytes bytes_int_int_bytes
      small_length)

text \<open>
  Claim C2, amended. For \<open>n\<close> below \<open>2 ^ 31\<close>, a string \<open>v\<close> serialized into a
  STRING(n) column is a 4-byte prefix followed by exactly \<open>n\<close> payload bytes,
  \<open>v\<close> cut or NUL-padded to \<open>n\<close>; the prefix holds \<open>n\<close> itself, the number of
  payload bytes that follow, whatever the length of \<open>v\<close>; read back, the field
  is the padded \<open>n\<close>-byte value and the stream stands right after it. The
  reader takes the number of payload bytes from the prefix, not from the
  column: a prefix \<open>m\<close> below \<open>2 ^ 31\<close> followed by \<open>m\<close> bytes is read as those
  \<open>m\<close> bytes in a STRING column of any declared length.
\<close>

theorem serializeField_string_layout:
  "(n < 2 ^ 31 \<longrightarrow>
      serializeField (StrV v) \<lparr>name = nm, ctype = ColSTRING, clength = n, is_primary_key = pk\<rparr>
        = Inr (int_bytes (of_nat n) @ resize v n)
      \<and> length (resize v n) = n
      \<and> resize v n = take n v @ replicate (n - length v) (CHR 0x00)
      \<and> deserializeField (int_bytes (of_nat n) @ resize v n @ rest, True)
            \<lparr>name = nm, ctype = ColSTRING, clength = n, is_primary_key = pk\<rparr>
          = Inr (StrV (resize v n), (rest, True)))
   \<and> (m < 2 ^ 31 \<and> length payload = m \<longrightarrow>
        deserializeField (int_bytes (of_nat m) @ payload @ rest, True)
            \<lparr>name = nm, ctype = ColSTRING, clength = n, is_primary_key = pk\<rparr>
          = Inr (StrV payload, (rest, True)))"
proof (intro conjI impI)
  assume n: "n < 2 ^ 31"
  show "serializeField (StrV v) \<lparr>name = nm, ctype = ColSTRING, clength = n, is_primary_key = pk\<rparr>
        = Inr (int_bytes (of_nat n) @ resize v n)"
    using small_length [OF n] by (simp add: serializeField_def Let_def length_resize)
  show "length (resize v n) = n" by (rule length_resize)
  show "resize v n = take n v @ replicate (n - length v) (CHR 0x00)" by (simp add: resize_def)
  show "deserializeField (int_bytes (of_nat n) @ resize v n @ rest, True)
            \<lparr>name = nm, ctype = ColSTRING, clength = n, is_primary_key = pk\<rparr>
          = Inr (StrV (resize v n), (rest, True))"
    using n by (rule deserializeField_string) (rule length_resize)
next
  assume "m < 2 ^ 31 \<and> length payload = m"
  then have "m < 2 ^ 31" and "length payload = m" by simp_all
  then show "deserializeField (int_bytes (of_nat m) @ payload @ rest, True)
            \<lparr>name = nm, ctype = ColSTRING, clength = n, is_primary_key = pk\<rparr>
          = Inr (StrV payload, (rest, True))"
    by (rule deserializeField_string)
qed

text \<open>
  The layout theorem at \<^verbatim>\<open>Ann\<close> in a STRING(10) column, and at a prefix of 3
  read in that column.
\<close>

theorem serializeField_string_layout_witness:
  "(10::nat) < 2 ^ 31
   \<and> serializeField (StrV ''Ann'') \<lparr>name = ''name'', ctype = ColSTRING, clength = 10, is_primary_key = False\<rparr>
       = Inr (int_bytes (of_nat 10) @ resize ''Ann'' 10)
   \<and> deserializeField (int_bytes (of_nat 10) @ resize ''Ann'' 10 @ ''rest'', True)
         \<lparr>name = ''name'', ctype = ColSTRING, clength = 10, is_primary_key = False\<rparr>
       = Inr (StrV (resize ''Ann'' 10), (''rest'', True))
   \<and> (3::nat) < 2 ^ 31 \<and> length ''Ann'' = 3
   \<and> deserializeField (int_bytes (of_nat 3) @ ''Ann'' @ ''rest'', True)
         \<lparr>name = ''name'', ctype = ColSTRING, clength = 10, is_primary_key = False\<rparr>
       = Inr (StrV ''Ann'', (''rest'', True))"
proof -
  note layout = serializeField_string_layout [where v = "''Ann''" and n = 10 and nm = "''name''"
      and pk = False and rest = "''rest''" and m = 3 and payload = "''Ann''"]
  have small: "(10::nat) < 2 ^ 31" by simp
  have three: "(3::nat) < 2 ^ 31 \<and> length ''Ann'' = 3" by simp
  note written = layout [THEN conjunct1, THEN mp, OF small]
  note reread = layout [THEN conjunct2, THEN mp, OF three]
  from small three written [THEN conjunct1] written [THEN conjunct2, THEN conjunct2, THEN conjunct2]
    reread
  show ?thesis by (intro conjI) simp_all
qed

section \<open>Value literals: properties\<close>

lemmas literal_defs = stoi_def strip_sign_def isspace_def isdigit_def decimal_def
  stof_def float_prefix_def tolower_def

lemma stoi_quote: "stoi (CHR 0x27 # s) = None"
  by (simp add: literal_defs)

lemma stof_quote: "stof cvt (CHR 0x27 # s) = None"
  by (simp add: literal_defs)

lemma stoi_bool_words:
  "stoi ''true'' = None" "stoi ''TRUE'' = None" "stoi ''false'' = None" "stoi ''FALSE'' = None"
  by (simp_all add: literal_defs)

lemma float_prefix_bool_words:
  "\<not> float_prefix ''true''" "\<not> float_prefix ''TRUE''"
  "\<not> float_prefix ''false''" "\<not> float_prefix ''FALSE''"
  by (simp_all add: float_prefix_def strip_sign_def isspace_def isdigit_def tolower_def
      char_of_def bit_Suc_0_iff)

lemma stof_bool_words:
  "stof cvt ''true'' = None" "stof cvt ''TRUE'' = None"
  "stof cvt ''false'' = None" "stof cvt ''FALSE'' = None"
  by (simp_all add: stof_def float_prefix_bool_words)

lemma parseValue_quoted:
  assumes "length body < 2 ^ 64"
  shows "parseValue cvt (CHR 0x27 # body @ [CHR 0x27]) = Some (StrV body)"
proof -
  have "(length body + 2 ^ 64) mod 2 ^ 64 = length body"
    using assms by simp
  then show ?thesis
    by (simp add: parseValue_def stoi_quote stof_quote substr_def)
qed

lemma parseValue_bool_words:
  assumes "s = ''true'' \<or> s = ''TRUE'' \<or> s = ''false'' \<or> s = ''FALSE''"
  shows "parseValue cvt s = Some (BoolV b) \<longleftrightarrow>
     (b \<and> (s = ''true'' \<or> s = ''TRUE'')) \<or> (\<not> b \<and> (s = ''false'' \<or> s = ''FALSE''))"
  using assms
  by (elim disjE) (simp_all add: parseValue_def stoi_bool_words stof_bool_words)

lemma parseValue_other_not_bool:
  assumes "\<not> (s = ''true'' \<or> s = ''TRUE'' \<or> s = ''false'' \<or> s = ''FALSE'')"
  shows "parseValue cvt s \<noteq> Some (BoolV b)"
proof (cases "stoi s")
  case (Some i)
  then show ?thesis by (simp add: parseValue_def)
next
  case None
  note n = this
  show ?thesis
  proof (cases "stof cvt s")
    case (Some f)
    with n show ?thesis by (simp add: parseValue_def)
  next
    case None
    with n assms show ?thesis by (simp add: parseValue_def)
  qed
qed

lemma parseValue_bool_iff:
  "parseValue cvt s = Some (BoolV b) \<longleftrightarrow>
     (b \<and> (s = ''true'' \<or> s = ''TRUE'')) \<or> (\<not> b \<and> (s = ''false'' \<or> s = ''FALSE''))"
proof (cases "s = ''true'' \<or> s = ''TRUE'' \<or> s = ''false'' \<or> s = ''FALSE''")
  case True
  then show ?thesis by (rule parseValue_bool_words)
next
  case False
  with parseValue_other_not_bool [OF False, of cvt b] show ?thesis by simp
qed

text \<open>
  Claim C4 as stated fails: \<^verbatim>\<open>True\<close> is a case-insensitive spelling of
  \<^verbatim>\<open>true\<close>, and it is parsed as a string, whatever the float conversion does.
\<close>

theorem parseValue_True_counterexample:
  "bool_word_ci ''True'' \<and> (\<forall>cvt. parseValue cvt ''True'' = Some (StrV ''True''))"
proof -
  have "bool_word_ci ''True''"
    by (simp add: bool_word_ci_def tolower_def char_of_def bit_Suc_0_iff)
  moreover have "parseValue cvt ''True'' = Some (StrV ''True'')" for cvt
    by (simp add: parseValue_def literal_defs)
  ultimately show ?thesis by simp
qed

text \<open>
  Claim C4, amended. A literal that \<^verbatim>\<open>stoi\<close> accepts is an integer; otherwise
  one that \<^verbatim>\<open>stof\<close> accepts is a float; the result is a boolean exactly for the
  four spellings \<^verbatim>\<open>true\<close>, \<^verbatim>\<open>TRUE\<close>, \<^verbatim>\<open>false\<close> and \<^verbatim>\<open>FALSE\<close>; any other
  non-empty literal that is not enclosed in single quotes is the string itself;
  a literal enclosed in single quotes is the string between the quotes; and
  the literal that is a single quote alone is the empty string.
\<close>

theorem parseValue_order:
  "(stoi s = Some i \<longrightarrow> parseValue cvt s = Some (IntV i))
   \<and> (stoi s = None \<and> stof cvt s = Some f \<longrightarrow> parseValue cvt s = Some (FloatV f))
   \<and> (parseValue cvt s = Some (BoolV b) \<longleftrightarrow>
        (b \<and> (s = ''true'' \<or> s = ''TRUE'')) \<or> (\<not> b \<and> (s = ''false'' \<or> s = ''FALSE'')))
   \<and> (stoi s = None \<and> stof cvt s = None \<and> s \<noteq> []
        \<and> s \<notin> {''true'', ''TRUE'', ''false'', ''FALSE''}
        \<and> \<not> (hd s = CHR 0x27 \<and> last s = CHR 0x27)
      \<longrightarrow> parseValue cvt s = Some (StrV s))
   \<and> (length body < 2 ^ 64 \<longrightarrow>
        parseValue cvt (CHR 0x27 # body @ [CHR 0x27]) = Some (StrV body))
   \<and> parseValue cvt [CHR 0x27] = Some (StrV [])"
proof -
  have int_first: "stoi s = Some i \<longrightarrow> parseValue cvt s = Some (IntV i)"
    by (simp add: parseValue_def)
  have float_second: "stoi s = None \<and> stof cvt s = Some f \<longrightarrow> parseValue cvt s = Some (FloatV f)"
    by (simp add: parseValue_def)
  have plain: "stoi s = None \<and> stof cvt s = None \<and> s \<noteq> []
        \<and> s \<notin> {''true'', ''TRUE'', ''false'', ''FALSE''}
        \<and> \<not> (hd s = CHR 0x27 \<and> last s = CHR 0x27)
      \<longrightarrow> parseValue cvt s = Some (StrV s)"
    by (auto simp: parseValue_def)
  have quoted: "length body < 2 ^ 64 \<longrightarrow>
        parseValue cvt (CHR 0x27 # body @ [CHR 0x27]) = Some (StrV body)"
    by (rule impI) (rule parseValue_quoted)
  have lone: "parseValue cvt [CHR 0x27] = Some (StrV [])"
    by (simp add: parseValue_def stoi_quote stof_quote substr_def)
  show ?thesis
    by (intro conjI) (rule int_first float_second parseValue_bool_iff plain quoted lone)+
qed

text \<open>The theorem at the literals \<^verbatim>\<open>12abc\<close> and \<^verbatim>\<open>'Bo'\<close>.\<close>

theorem parseValue_order_witness:
  "stoi ''12abc'' = Some 12
   \<and> parseValue (\<lambda>s. None) ''12abc'' = Some (IntV 12)
   \<and> length ''Bo'' < 2 ^ 64
   \<and> parseValue (\<lambda>s. None) (CHR 0x27 # ''Bo'' @ [CHR 0x27]) = Some (StrV ''Bo'')"
proof -
  have a: "stoi ''12abc'' = Some 12" by (simp add: literal_defs)
  have b: "length ''Bo'' < 2 ^ 64" by simp
  note t = parseValue_order [where s = "''12abc''" and i = 12 and cvt = "\<lambda>s. None"
      and body = "''Bo''"]
  have c: "parseValue (\<lambda>s. None) ''12abc'' = Some (IntV 12)"
    using t [THEN conjunct1] a by (rule mp)
  have d: "parseValue (\<lambda>s. None) (CHR 0x27 # ''Bo'' @ [CHR 0x27]) = Some (StrV ''Bo'')"
    using t [THEN conjunct2, THEN conjunct2, THEN conjunct2, THEN conjunct2, THEN conjunct1] b
    by (rule mp)
  from a b c d show ?thesis by (intro conjI)
qed

section \<open>Insert\<close>


lemma data_files_createIndex [simp]: "data_files (createIndex schema st) = data_files st"
  by (simp add: createIndex_def log_err_def open_tree_def Let_def split: option.splits)

lemma get_throws:
  "get_int v = Inl e \<Longrightarrow> e = BadVariantAccess"
  "get_float v = Inl e \<Longrightarrow> e = BadVariantAccess"
  "get_string v = Inl e \<Longrightarrow> e = BadVariantAccess"
  "get_bool v = Inl e \<Longrightarrow> e = BadVariantAccess"
  by (cases v; simp)+

lemma serializeField_throws: "serializeField v c = Inl e \<Longrightarrow> e = BadVariantAccess"
  by (auto simp: serializeField_def Let_def split: ColumnType.splits sum.splits dest: get_throws)

lemma saveRecord_throws: "saveRecord record cols = (bytes, Some e) \<Longrightarrow> e = BadVariantAccess"
proof (induction cols arbitrary: bytes)
  case Nil
  then show ?case by simp
next
  case (Cons column rest)
  then show ?case
    by (auto split: sum.splits prod.splits if_splits dest: serializeField_throws)
qed

lemma insert_primary_key_throws:
  "insert_primary_key schema record = PkThrow e \<Longrightarrow> e = BadVariantAccess"
  by (auto simp: insert_primary_key_def split: option.splits if_splits sum.splits dest: get_throws)




lemma find_table_name: "find_table st table_name = Some schema \<Longrightarrow> tname schema = table_name"
  by (auto simp: find_table_def find_Some_iff)


lemma users_table: "find_table users_db ''users'' = Some users_schema"
  by (simp add: find_table_def users_db_def users_schema_def)

lemma users_pk:
  "find is_primary_key (columns users_schema)
     = Some \<lparr>name = ''id'', ctype = ColINT, clength = 0, is_primary_key = True\<rparr>"
  by (simp add: users_schema_def)

lemma users_insert_7:
  "fst (insertRecord users_db ''users'' [''id'' \<mapsto> IntV 7]) = Inr True"
  "data_files (snd (insertRecord users_db ''users'' [''id'' \<mapsto> IntV 7])) ''users.dat''
     = Some (int_bytes 7 @ (int_bytes 3 @ replicate 3 (CHR 0x00)) @ [CHR 0x00])"
  "indexes (snd (insertRecord users_db ''users'' [''id'' \<mapsto> IntV 7])) ''users'' = Some ''users.idx''"
  "index_files (snd (insertRecord users_db ''users'' [''id'' \<mapsto> IntV 7])) ''users.idx'' = Some [(7, 0)]"
  by (simp_all add: insertRecord_def find_table_def users_db_def users_schema_def notes_schema_def
      insert_primary_key_def createIndex_def open_tree_def tree_at_def tree_insert_def Let_def
      serializeField_def default_value_def resize_def)





lemma indexes_log_err [simp]: "indexes (log_err msg st) = indexes st"
  by (simp add: log_err_def)

lemma createIndex_no_pk:
  "find is_primary_key (columns schema) = None \<Longrightarrow> indexes (createIndex schema st) = indexes st"
  by (simp add: createIndex_def)

lemma createIndex_pk:
  "find is_primary_key (columns schema) = Some c \<Longrightarrow>
     indexes (createIndex schema st) = (indexes st)(tname schema \<mapsto> index_file_path schema)"
  by (simp add: createIndex_def open_tree_def Let_def split: option.splits)

lemma insertRecord_handle_present:
  assumes tbl: "find_table st table_name = Some schema"
    and pk: "find is_primary_key (columns schema) = Some c"
  shows "fst (insertRecord st table_name record) \<noteq> Inl NullIndexHandle"
    and "fst (insertRecord st table_name record) = Inr True \<Longrightarrow>
           indexes (snd (insertRecord st table_name record)) table_name
             = Some (case indexes st table_name of None \<Rightarrow> index_file_path schema | Some h \<Rightarrow> h)"
proof -
  have nm: "tname schema = table_name" using tbl by (rule find_table_name)
  have thrown: "e \<noteq> NullIndexHandle" if "saveRecord record (columns schema) = (bytes, Some e)" for bytes e
    using saveRecord_throws [OF that] by simp
  have pkthrow: "e \<noteq> NullIndexHandle" if "insert_primary_key schema record = PkThrow e" for e
    using insert_primary_key_throws [OF that] by simp
  show "fst (insertRecord st table_name record) \<noteq> Inl NullIndexHandle"
    unfolding insertRecord_def tbl
    by (auto simp: Let_def createIndex_pk [OF pk] nm
        split: pk_result.splits prod.splits option.splits if_splits
        dest: thrown pkthrow)
  show "indexes (snd (insertRecord st table_name record)) table_name
             = Some (case indexes st table_name of None \<Rightarrow> index_file_path schema | Some h \<Rightarrow> h)"
    if "fst (insertRecord st table_name record) = Inr True"
    using that unfolding insertRecord_def tbl
    by (auto simp: Let_def createIndex_pk [OF pk] nm
        split: pk_result.splits prod.splits option.splits if_splits)
qed

lemma insertRecord_no_handle:
  assumes tbl: "find_table st table_name = Some schema"
    and nopk: "find is_primary_key (columns schema) = None"
    and nohandle: "indexes st table_name = None"
  shows "indexes (snd (insertRecord st table_name record)) table_name = None"
    and "snd (saveRecord record (columns schema)) = None \<Longrightarrow>
           fst (insertRecord st table_name record) = Inl NullIndexHandle"
proof -
  have pkv: "insert_primary_key schema record = PkValue 0"
    using nopk by (simp add: insert_primary_key_def)
  show "indexes (snd (insertRecord st table_name record)) table_name = None"
    unfolding insertRecord_def tbl
    by (simp add: pkv Let_def createIndex_no_pk [OF nopk] nohandle split: prod.splits option.splits)
  show "fst (insertRecord st table_name record) = Inl NullIndexHandle"
    if "snd (saveRecord record (columns schema)) = None"
  proof (cases "saveRecord record (columns schema)")
    case (Pair bytes thrown)
    with that have "thrown = None" by simp
    with Pair show ?thesis
      unfolding insertRecord_def tbl
      by (simp add: pkv Let_def createIndex_no_pk [OF nopk] nohandle)
  qed
qed

text \<open>
  Claim C10. When the schema has a primary-key column of type INT, an insert
  never reaches the index step without a handle: it does not end in a call
  through a null handle, and after a successful insert the handle of the table
  is the one that was open before or, if there was none, the one opened on the
  table's index file. When the schema has no primary-key column and no handle
  is open for the table, \<^verbatim>\<open>createIndex\<close> opens none, the table still has no handle
  after the insert, and an insert whose record is written without an exception
  reaches the index step with no handle.
\<close>

theorem insertRecord_index_handle:
  assumes "find_table st table_name = Some schema"
  shows
    "(\<forall>c. find is_primary_key (columns schema) = Some c \<and> ctype c = ColINT \<longrightarrow>
         fst (insertRecord st table_name record) \<noteq> Inl NullIndexHandle
         \<and> (fst (insertRecord st table_name record) = Inr True \<longrightarrow>
              indexes (snd (insertRecord st table_name record)) table_name
                = Some (case indexes st table_name of
                          None \<Rightarrow> index_file_path schema | Some h \<Rightarrow> h)))
     \<and> (find is_primary_key (columns schema) = None \<and> indexes st table_name = None \<longrightarrow>
          indexes (createIndex schema st) = indexes st
          \<and> indexes (snd (insertRecord st table_name record)) table_name = None
          \<and> (snd (saveRecord record (columns schema)) = None \<longrightarrow>
               fst (insertRecord st table_name record) = Inl NullIndexHandle))"
proof (intro conjI allI impI)
  fix c
  assume "find is_primary_key (columns schema) = Some c \<and> ctype c = ColINT"
  then have pk: "find is_primary_key (columns schema) = Some c" by simp
  show "fst (insertRecord st table_name record) \<noteq> Inl NullIndexHandle"
    by (rule insertRecord_handle_present(1) [OF assms pk])
  show "indexes (snd (insertRecord st table_name record)) table_name
                = Some (case indexes st table_name of
                          None \<Rightarrow> index_file_path schema | Some h \<Rightarrow> h)"
    if "fst (insertRecord st table_name record) = Inr True"
    using that by (rule insertRecord_handle_present(2) [OF assms pk])
next
  assume a: "find is_primary_key (columns schema) = None \<and> indexes st table_name = None"
  then have nopk: "find is_primary_key (columns schema) = None"
    and nohandle: "indexes st table_name = None" by simp_all
  show "indexes (createIndex schema st) = indexes st"
    by (rule createIndex_no_pk [OF nopk])
  show "indexes (snd (insertRecord st table_name record)) table_name = None"
    by (rule insertRecord_no_handle(1) [OF assms nopk nohandle])
  show "fst (insertRecord st table_name record) = Inl NullIndexHandle"
    if "snd (saveRecord record (columns schema)) = None"
    using that by (rule insertRecord_no_handle(2) [OF assms nopk nohandle])
qed

lemma notes_table: "find_table users_db ''notes'' = Some notes_schema"
  by (simp add: find_table_def users_db_def users_schema_def notes_schema_def)

lemma notes_facts:
  "find is_primary_key (columns notes_schema) = None"
  "indexes users_db ''notes'' = None"
  "snd (saveRecord [''txt'' \<mapsto> StrV ''hi''] (columns notes_schema)) = None"
  by (simp_all add: notes_schema_def users_db_def serializeField_def resize_def)

text \<open>The theorem on the keyed table \<^verbatim>\<open>users\<close> and the keyless table \<^verbatim>\<open>notes\<close>.\<close>

theorem insertRecord_index_handle_witness:
  "find_table users_db ''users'' = Some users_schema
   \<and> find is_primary_key (columns users_schema)
       = Some \<lparr>name = ''id'', ctype = ColINT, clength = 0, is_primary_key = True\<rparr>
   \<and> fst (insertRecord users_db ''users'' [''id'' \<mapsto> IntV 7]) = Inr True
   \<and> indexes users_db ''users'' = None
   \<and> indexes (snd (insertRecord users_db ''users'' [''id'' \<mapsto> IntV 7])) ''users''
       = Some (index_file_path users_schema)
   \<and> find_table users_db ''notes'' = Some notes_schema
   \<and> find is_primary_key (columns notes_schema) = None
   \<and> indexes users_db ''notes'' = None
   \<and> snd (saveRecord [''txt'' \<mapsto> StrV ''hi''] (columns notes_schema)) = None
   \<and> indexes (snd (insertRecord users_db ''notes'' [''txt'' \<mapsto> StrV ''hi''])) ''notes'' = None
   \<and> fst (insertRecord users_db ''notes'' [''txt'' \<mapsto> StrV ''hi'']) = Inl NullIndexHandle"
proof -
  note keyed = insertRecord_index_handle [OF users_table, of "[''id'' \<mapsto> IntV 7]"]
  note keyless = insertRecord_index_handle [OF notes_table, of "[''txt'' \<mapsto> StrV ''hi'']"]
  have pk: "find is_primary_key (columns users_schema)
       = Some \<lparr>name = ''id'', ctype = ColINT, clength = 0, is_primary_key = True\<rparr>
     \<and> ctype \<lparr>name = ''id'', ctype = ColINT, clength = 0, is_primary_key = True\<rparr> = ColINT"
    using users_pk by simp
  have none: "indexes users_db ''users'' = None" by (simp add: users_db_def)
  note k1 = keyed [THEN conjunct1, THEN spec, THEN mp, OF pk]
  have handle: "indexes (snd (insertRecord users_db ''users'' [''id'' \<mapsto> IntV 7])) ''users''
       = Some (index_file_path users_schema)"
    using k1 [THEN conjunct2, THEN mp, OF users_insert_7(1)] none by simp
  have nk: "find is_primary_key (columns notes_schema) = None \<and> indexes users_db ''notes'' = None"
    using notes_facts by simp
  note k2 = keyless [THEN conjunct2, THEN mp, OF nk]
  note k3 = k2 [THEN conjunct2, THEN conjunct2, THEN mp, OF notes_facts(3)]
  note k4 = k2 [THEN conjunct2, THEN conjunct1]
  from users_table users_pk users_insert_7(1) none handle notes_table notes_facts k4 k3
  show ?thesis by (intro conjI)
qed

section \<open>Records read from a file\<close>

lemma deserializeField_serializable:
  "deserializeField s column = Inr (v, s') \<Longrightarrow> \<exists>out. serializeField v column = Inr out"
  by (auto simp: deserializeField_def serializeField_def Let_def
      split: ColumnType.splits if_splits prod.splits)

lemma loadRecord_from_serializable:
  assumes "loadRecord_from s cols acc = Inr (rcd, s')"
    and "distinct (map name cols)"
  shows "(\<forall>column \<in> set cols. \<exists>v out. rcd (name column) = Some v \<and> serializeField v column = Inr out)
         \<and> (\<forall>x. x \<notin> name ` set cols \<longrightarrow> rcd x = acc x)"
  using assms
proof (induction cols arbitrary: s acc)
  case Nil
  then show ?case by simp
next
  case (Cons column rest)
  from Cons.prems(1) obtain v s1 where
    d: "deserializeField s column = Inr (v, s1)" and
    r: "loadRecord_from s1 rest (acc(name column \<mapsto> v)) = Inr (rcd, s')"
    by (auto split: sum.splits)
  from Cons.prems(2) have dist: "distinct (map name rest)" and fresh: "name column \<notin> name ` set rest"
    by simp_all
  from Cons.IH [OF r dist] have
    rest_fits: "\<forall>c \<in> set rest. \<exists>v out. rcd (name c) = Some v \<and> serializeField v c = Inr out" and
    frame: "\<forall>x. x \<notin> name ` set rest \<longrightarrow> rcd x = (acc(name column \<mapsto> v)) x"
    by simp_all
  from frame fresh have "rcd (name column) = Some v" by simp
  with deserializeField_serializable [OF d]
  have "\<exists>v out. rcd (name column) = Some v \<and> serializeField v column = Inr out"
    by auto
  with rest_fits frame show ?case by auto
qed

lemma saveRecord_serializable:
  "\<forall>column \<in> set cols. \<exists>v out. rcd (name column) = Some v \<and> serializeField v column = Inr out \<Longrightarrow>
     snd (saveRecord rcd cols) = None"
proof (induction cols)
  case Nil
  then show ?case by simp
next
  case (Cons column rest)
  then have "\<exists>v out. rcd (name column) = Some v \<and> serializeField v column = Inr out"
    and "snd (saveRecord rcd rest) = None" by simp_all
  then show ?case
    by (auto split: prod.splits)
qed

lemma loadRecord_saves:
  assumes "loadRecord s schema = Inr (rcd, s')" and "distinct (map name (columns schema))"
  shows "snd (saveRecord rcd (columns schema)) = None"
  using loadRecord_from_serializable [OF assms(1) [unfolded loadRecord_def] assms(2)]
  by (intro saveRecord_serializable) simp

lemma read_records_loaded:
  "read_records schema content pos = (records, err) \<Longrightarrow>
     \<forall>(offset, rcd) \<in> set records. \<exists>s'. loadRecord (drop offset content, True) schema = Inr (rcd, s')"
proof (induction schema content pos arbitrary: records err rule: read_records.induct)
  case (1 schema content pos)
  show ?case
  proof (cases "pos < length content")
    case False
    with "1.prems" show ?thesis by (simp add: read_records.simps [of schema content pos])
  next
    case True
    show ?thesis
    proof (cases "loadRecord (drop pos content, True) schema")
      case (Inl e)
      with True "1.prems" show ?thesis by (simp add: read_records.simps [of schema content pos])
    next
      case (Inr p)
      obtain rcd s1 where p: "p = (rcd, s1)" by (cases p)
      show ?thesis
      proof (cases "snd s1")
        case False
        with True Inr p "1.prems" have "records = [(pos, rcd)]"
          by (simp add: read_records.simps [of schema content pos])
        with Inr p show ?thesis by auto
      next
        case good: True
        show ?thesis
        proof (cases "length (fst s1) = length content - pos")
          case True
          with \<open>pos < length content\<close> good Inr p "1.prems" show ?thesis
            by (simp add: read_records.simps [of schema content pos])
        next
          case False
          obtain more err' where
            m: "read_records schema content (length content - length (fst s1)) = (more, err')"
            by (cases "read_records schema content (length content - length (fst s1))")
          from good have g: "\<not> \<not> snd s1" by simp
          from "1.IH" [OF \<open>pos < length content\<close> Inr [unfolded p] _ g False m] p
          have "\<forall>(offset, rcd) \<in> set more.
                  \<exists>s'. loadRecord (drop offset content, True) schema = Inr (rcd, s')"
            by simp
          moreover from \<open>pos < length content\<close> Inr p good False m "1.prems"
          have "records = (pos, rcd) # more"
            by (simp add: read_records.simps [of schema content pos])
          ultimately show ?thesis using Inr p by auto
        qed
      qed
    qed
  qed
qed

lemma read_records_save:
  assumes "read_records schema content 0 = (records, err)"
    and "distinct (map name (columns schema))"
  shows "\<forall>(offset, r) \<in> set records. snd (saveRecord r (columns schema)) = None"
  using read_records_loaded [OF assms(1)] loadRecord_saves [OF _ assms(2)]
  by fastforce

section \<open>Update and delete\<close>

lemma update_loop_nomatch:
  assumes "\<forall>(offset, r) \<in> set records. \<not> matches_key kc kv r \<and> snd (saveRecord r cols) = None"
  shows "\<exists>temp' omap'. update_loop cols pkc kc kv nv records (temp, found, changed, omap)
           = ((temp', found, changed, omap'), None)"
  using assms
proof (induction records arbitrary: temp omap)
  case Nil
  then show ?case by simp
next
  case (Cons p rest)
  obtain offset r where p: "p = (offset, r)" by (cases p)
  from Cons.prems p have nm: "\<not> matches_key kc kv r" and sv: "snd (saveRecord r cols) = None"
    and rest: "\<forall>(offset, r) \<in> set rest. \<not> matches_key kc kv r \<and> snd (saveRecord r cols) = None"
    by simp_all
  obtain bytes where b: "saveRecord r cols = (bytes, None)"
    using sv by (cases "saveRecord r cols") simp
  have step: "update_loop cols pkc kc kv nv (p # rest) (temp, found, changed, omap)
      = update_loop cols pkc kc kv nv rest (temp @ bytes, found, changed, omap(offset \<mapsto> length temp))"
    by (simp add: p nm b Let_def)
  show ?case unfolding step by (rule Cons.IH [OF rest])
qed

lemma delete_loop_nomatch:
  assumes "\<forall>(offset, r) \<in> set records. \<not> matches_key kc kv r \<and> snd (saveRecord r cols) = None"
  shows "\<exists>temp' omap'. delete_loop cols pkc kc kv records (temp, found, keys, omap)
           = ((temp', found, keys, omap'), None)"
  using assms
proof (induction records arbitrary: temp omap)
  case Nil
  then show ?case by simp
next
  case (Cons p rest)
  obtain offset r where p: "p = (offset, r)" by (cases p)
  from Cons.prems p have nm: "\<not> matches_key kc kv r" and sv: "snd (saveRecord r cols) = None"
    and rest: "\<forall>(offset, r) \<in> set rest. \<not> matches_key kc kv r \<and> snd (saveRecord r cols) = None"
    by simp_all
  obtain bytes where b: "saveRecord r cols = (bytes, None)"
    using sv by (cases "saveRecord r cols") simp
  have step: "delete_loop cols pkc kc kv (p # rest) (temp, found, keys, omap)
      = delete_loop cols pkc kc kv rest (temp @ bytes, found, keys, omap(offset \<mapsto> length temp))"
    by (simp add: p nm b Let_def)
  show ?case unfolding step by (rule Cons.IH [OF rest])
qed

lemma updateRecord_nomatch:
  assumes tbl: "find_table st table_name = Some schema"
    and names: "distinct (map name (columns schema))"
    and exists: "data_files st (data_file_path schema) = Some content"
    and rd: "read_records schema content 0 = (records, None)"
    and nomatch: "\<forall>(offset, r) \<in> set records. \<not> matches_key key_column key_value r"
  shows "updateRecord st table_name key_column key_value new_values
         = (Inr False,
            st\<lparr>data_files := (data_files st)(data_file_path schema @ ''.tmp'' := None),
               fs_ops := fs_ops st @ [Remove (data_file_path schema @ ''.tmp'')],
               cerr := cerr st @ [''No record found matching the criteria'']\<rparr>)"
proof -
  from read_records_save [OF rd names] nomatch
  have "\<forall>(offset, r) \<in> set records.
          \<not> matches_key key_column key_value r \<and> snd (saveRecord r (columns schema)) = None"
    by auto
  from update_loop_nomatch [OF this] obtain temp' omap' where
    "update_loop (columns schema) (primary_key_column schema) key_column key_value new_values records
       ([], False, False, Map.empty) = ((temp', False, False, omap'), None)"
    by blast
  then show ?thesis
    unfolding updateRecord_def tbl
    by (simp add: exists rd Let_def log_err_def)
qed

lemma deleteRecord_nomatch:
  assumes tbl: "find_table st table_name = Some schema"
    and names: "distinct (map name (columns schema))"
    and exists: "data_files st (data_file_path schema) = Some content"
    and rd: "read_records schema content 0 = (records, None)"
    and nomatch: "\<forall>(offset, r) \<in> set records. \<not> matches_key key_column key_value r"
  shows "deleteRecord st table_name key_column key_value
         = (Inr False,
            st\<lparr>data_files := (data_files st)(data_file_path schema @ ''.tmp'' := None),
               fs_ops := fs_ops st @ [Remove (data_file_path schema @ ''.tmp'')],
               cerr := cerr st @ [''No record found matching the criteria'']\<rparr>)"
proof -
  from read_records_save [OF rd names] nomatch
  have "\<forall>(offset, r) \<in> set records.
          \<not> matches_key key_column key_value r \<and> snd (saveRecord r (columns schema)) = None"
    by auto
  from delete_loop_nomatch [OF this] obtain temp' omap' where
    "delete_loop (columns schema) (primary_key_column schema) key_column key_value records
       ([], False, [], Map.empty) = ((temp', False, [], omap'), None)"
    by blast
  then show ?thesis
    unfolding deleteRecord_def tbl
    by (simp add: exists rd Let_def log_err_def)
qed

section \<open>The example database\<close>

lemma length_examples [simp]:
  "length ann_bytes = 12" "length amy_bytes = 12" "length amy_ok_bytes = 12"
  by (simp_all add: ann_bytes_def amy_bytes_def amy_ok_bytes_def length_int_bytes)

lemma load_ann: "loadRecord (ann_bytes @ rest, True) users_schema = Inr (ann, (rest, True))"
  by (simp add: loadRecord_def users_schema_def ann_bytes_def ann_def deserializeField_def
      stream_read_def length_int_bytes bytes_int_int_bytes Let_def)

lemma load_amy: "loadRecord (amy_bytes @ rest, True) users_schema = Inr (amy, (rest, True))"
  by (simp add: loadRecord_def users_schema_def amy_bytes_def amy_def deserializeField_def
      stream_read_def length_int_bytes bytes_int_int_bytes Let_def)

lemma save_ann: "saveRecord ann (columns users_schema) = (ann_bytes, None)"
  by (simp add: users_schema_def ann_def ann_bytes_def serializeField_def resize_def)

lemma save_amy: "saveRecord amy (columns users_schema) = (amy_bytes, None)"
  by (simp add: users_schema_def amy_def amy_bytes_def serializeField_def resize_def)

lemma users_db2_eq:
  "users_db2 =
     \<lparr>tables = [users_schema, notes_schema],
      indexes = [''users'' \<mapsto> ''users.idx''],
      data_files = [''users.dat'' \<mapsto> ann_bytes @ amy_bytes],
      index_files = [''users.idx'' \<mapsto> [(1, 0), (1, 12)]],
      fs_ops = [], cerr = []\<rparr>"
proof -
  have pk_ann: "insert_primary_key users_schema ann = PkValue 1"
    and pk_amy: "insert_primary_key users_schema amy = PkValue 1"
    by (simp_all add: insert_primary_key_def users_schema_def ann_def amy_def)
  have paths: "data_file_path users_schema = ''users.dat''" "index_file_path users_schema = ''users.idx''"
    "tname users_schema = ''users''"
    by (simp_all add: users_schema_def)
  have tbl: "find_table st ''users'' = Some users_schema" if "tables st = [users_schema, notes_schema]" for st
    using that by (simp add: find_table_def users_schema_def)
  have one: "snd (insertRecord users_db ''users'' ann) =
     \<lparr>tables = [users_schema, notes_schema],
      indexes = [''users'' \<mapsto> ''users.idx''],
      data_files = [''users.dat'' \<mapsto> ann_bytes],
      index_files = [''users.idx'' \<mapsto> [(1, 0)]],
      fs_ops = [], cerr = []\<rparr>"
    by (simp add: insertRecord_def tbl users_db_def pk_ann save_ann paths createIndex_def users_pk
        open_tree_def tree_at_def tree_insert_def Let_def)
  show ?thesis
    unfolding users_db2_def one
    by (simp add: insertRecord_def tbl pk_amy save_amy paths tree_at_def tree_insert_def Let_def)
qed

lemma read_users:
  "read_records users_schema (ann_bytes @ amy_bytes) 0 = ([(0, ann), (12, amy)], None)"
proof -
  have third: "read_records users_schema (ann_bytes @ amy_bytes) 24 = ([], None)"
    by (simp add: read_records.simps [of _ _ 24])
  have second: "read_records users_schema (ann_bytes @ amy_bytes) 12 = ([(12, amy)], None)"
    using load_amy [of "[]"] by (simp add: read_records.simps [of _ _ 12] third)
  show ?thesis
    by (simp add: read_records.simps [of _ _ 0] load_ann second)
qed

lemma read_amy: "read_records users_schema amy_bytes 0 = ([(0, amy)], None)"
proof -
  have "read_records users_schema amy_bytes 12 = ([], None)"
    by (simp add: read_records.simps [of _ _ 12])
  then show ?thesis
    using load_amy [of "[]"] by (simp add: read_records.simps [of _ _ 0])
qed

lemma users_db2_table: "find_table users_db2 ''users'' = Some users_schema"
  by (simp add: users_db2_eq find_table_def users_schema_def)

lemma users_paths:
  "data_file_path users_schema = ''users.dat''"
  "index_file_path users_schema = ''users.idx''"
  "tname users_schema = ''users''"
  "primary_key_column users_schema = ''id''"
  "distinct (map name (columns users_schema))"
  by (simp_all add: users_schema_def primary_key_column_def)

lemma users_matches:
  "matches_key ''ok'' (BoolV True) ann"
  "\<not> matches_key ''ok'' (BoolV True) amy"
  "\<not> matches_key ''name'' (StrV ''amy'') ann"
  "matches_key ''name'' (StrV ''amy'') amy"
  "\<not> matches_key ''id'' (IntV 5) ann"
  "\<not> matches_key ''id'' (IntV 5) amy"
  "matches_key ''id'' (IntV 1) ann"
  "matches_key ''id'' (IntV 1) amy"
  by (simp_all add: matches_key_def ann_def amy_def fv_eq_def get2_def)

lemma users_ids: "ann ''id'' = Some (IntV 1)" "amy ''id'' = Some (IntV 1)"
  by (simp_all add: ann_def amy_def)

section \<open>Update and delete without a match\<close>

text \<open>
  Claim C7 as stated fails for a table whose data file does not exist yet (no
  record has been inserted): no record matches, but the diagnostic is the one
  for the missing data file, and no temporary file is created or removed.
\<close>

theorem rewrite_missing_file_counterexample:
  "find_table users_db ''users'' = Some users_schema
   \<and> data_files users_db (data_file_path users_schema) = None
   \<and> updateRecord users_db ''users'' ''id'' (IntV 1) [''ok'' \<mapsto> BoolV True]
       = (Inr False, users_db\<lparr>cerr := [''Data file not found: users.dat'']\<rparr>)
   \<and> deleteRecord users_db ''users'' ''id'' (IntV 1)
       = (Inr False, users_db\<lparr>cerr := [''Data file not found: users.dat'']\<rparr>)
   \<and> ''Data file not found: users.dat'' \<noteq> ''No record found matching the criteria''"
proof -
  have nofile: "data_files users_db (data_file_path users_schema) = None"
    by (simp add: users_db_def)
  have upd: "updateRecord users_db ''users'' ''id'' (IntV 1) [''ok'' \<mapsto> BoolV True]
       = (Inr False, users_db\<lparr>cerr := [''Data file not found: users.dat'']\<rparr>)"
    unfolding updateRecord_def users_table
    by (simp add: nofile log_err_def) (simp add: users_db_def users_schema_def)
  have del: "deleteRecord users_db ''users'' ''id'' (IntV 1)
       = (Inr False, users_db\<lparr>cerr := [''Data file not found: users.dat'']\<rparr>)"
    unfolding deleteRecord_def users_table
    by (simp add: nofile log_err_def) (simp add: users_db_def users_schema_def)
  have differ: "''Data file not found: users.dat'' \<noteq> ''No record found matching the criteria''"
    by simp
  from users_table nofile upd del differ show ?thesis by (intro conjI)
qed

text \<open>
  Claim C7, amended. On a table of the catalog whose column names are pairwise
  distinct and whose data file exists and is read to its end (no scalar field
  is cut short by the end of the file, no STRING length is negative, and a
  record takes at least one byte), an update or a delete whose key test no
  record read passes returns
  \<^verbatim>\<open>false\<close>, prints \<^verbatim>\<open>No record found matching the criteria\<close>, removes the
  temporary file and does nothing else: the data file holds the bytes it held,
  the temporary file does not exist afterwards, and its removal is the only
  operation on the file system. When the data file does not exist, both calls
  return \<^verbatim>\<open>false\<close> with the diagnostic \<^verbatim>\<open>Data file not found\<close> and change
  nothing else.
\<close>

theorem rewrite_without_match:
  assumes "find_table st table_name = Some schema"
  shows
    "(distinct (map name (columns schema))
        \<and> data_files st (data_file_path schema) = Some content
        \<and> read_records schema content 0 = (records, None)
        \<and> (\<forall>(offset, r) \<in> set records. \<not> matches_key key_column key_value r) \<longrightarrow>
        updateRecord st table_name key_column key_value new_values
          = (Inr False,
             st\<lparr>data_files := (data_files st)(data_file_path schema @ ''.tmp'' := None),
                fs_ops := fs_ops st @ [Remove (data_file_path schema @ ''.tmp'')],
                cerr := cerr st @ [''No record found matching the criteria'']\<rparr>)
        \<and> deleteRecord st table_name key_column key_value
          = (Inr False,
             st\<lparr>data_files := (data_files st)(data_file_path schema @ ''.tmp'' := None),
                fs_ops := fs_ops st @ [Remove (data_file_path schema @ ''.tmp'')],
                cerr := cerr st @ [''No record found matching the criteria'']\<rparr>)
        \<and> ((data_files st)(data_file_path schema @ ''.tmp'' := None)) (data_file_path schema)
            = Some content
        \<and> ((data_files st)(data_file_path schema @ ''.tmp'' := None)) (data_file_path schema @ ''.tmp'')
            = None)
     \<and> (data_files st (data_file_path schema) = None \<longrightarrow>
          updateRecord st table_name key_column key_value new_values
            = (Inr False, st\<lparr>cerr := cerr st @ [''Data file not found: '' @ data_file_path schema]\<rparr>)
          \<and> deleteRecord st table_name key_column key_value
            = (Inr False, st\<lparr>cerr := cerr st @ [''Data file not found: '' @ data_file_path schema]\<rparr>))"
proof (intro conjI impI)
  assume a: "distinct (map name (columns schema))
        \<and> data_files st (data_file_path schema) = Some content
        \<and> read_records schema content 0 = (records, None)
        \<and> (\<forall>(offset, r) \<in> set records. \<not> matches_key key_column key_value r)"
  then have names: "distinct (map name (columns schema))"
    and exists: "data_files st (data_file_path schema) = Some content"
    and rd: "read_records schema content 0 = (records, None)"
    and nomatch: "\<forall>(offset, r) \<in> set records. \<not> matches_key key_column key_value r"
    by simp_all
  show "updateRecord st table_name key_column key_value new_values
       = (Inr False,
          st\<lparr>data_files := (data_files st)(data_file_path schema @ ''.tmp'' := None),
             fs_ops := fs_ops st @ [Remove (data_file_path schema @ ''.tmp'')],
             cerr := cerr st @ [''No record found matching the criteria'']\<rparr>)"
    using assms names exists rd nomatch by (rule updateRecord_nomatch)
  show "deleteRecord st table_name key_column key_value
       = (Inr False,
          st\<lparr>data_files := (data_files st)(data_file_path schema @ ''.tmp'' := None),
             fs_ops := fs_ops st @ [Remove (data_file_path schema @ ''.tmp'')],
             cerr := cerr st @ [''No record found matching the criteria'']\<rparr>)"
    using assms names exists rd nomatch by (rule deleteRecord_nomatch)
  show "((data_files st)(data_file_path schema @ ''.tmp'' := None)) (data_file_path schema) = Some content"
    using exists by simp
  show "((data_files st)(data_file_path schema @ ''.tmp'' := None)) (data_file_path schema @ ''.tmp'') = None"
    by simp
next
  assume nofile: "data_files st (data_file_path schema) = None"
  show "updateRecord st table_name key_column key_value new_values
            = (Inr False, st\<lparr>cerr := cerr st @ [''Data file not found: '' @ data_file_path schema]\<rparr>)"
    unfolding updateRecord_def assms by (simp add: nofile log_err_def)
  show "deleteRecord st table_name key_column key_value
            = (Inr False, st\<lparr>cerr := cerr st @ [''Data file not found: '' @ data_file_path schema]\<rparr>)"
    unfolding deleteRecord_def assms by (simp add: nofile log_err_def)
qed

text \<open>
  The theorem on the table \<^verbatim>\<open>users\<close> holding two records with key 1, for the
  key 5; and on the same table before any insert.
\<close>

theorem rewrite_without_match_witness:
  "find_table users_db2 ''users'' = Some users_schema
   \<and> distinct (map name (columns users_schema))
   \<and> data_files users_db2 (data_file_path users_schema) = Some (ann_bytes @ amy_bytes)
   \<and> read_records users_schema (ann_bytes @ amy_bytes) 0 = ([(0, ann), (12, amy)], None)
   \<and> \<not> matches_key ''id'' (IntV 5) ann
   \<and> \<not> matches_key ''id'' (IntV 5) amy
   \<and> updateRecord users_db2 ''users'' ''id'' (IntV 5) [''ok'' \<mapsto> BoolV True]
       = (Inr False,
          users_db2\<lparr>data_files := (data_files users_db2)(data_file_path users_schema @ ''.tmp'' := None),
             fs_ops := fs_ops users_db2 @ [Remove (data_file_path users_schema @ ''.tmp'')],
             cerr := cerr users_db2 @ [''No record found matching the criteria'']\<rparr>)
   \<and> deleteRecord users_db2 ''users'' ''id'' (IntV 5)
       = (Inr False,
          users_db2\<lparr>data_files := (data_files users_db2)(data_file_path users_schema @ ''.tmp'' := None),
             fs_ops := fs_ops users_db2 @ [Remove (data_file_path users_schema @ ''.tmp'')],
             cerr := cerr users_db2 @ [''No record found matching the criteria'']\<rparr>)
   \<and> find_table users_db ''users'' = Some users_schema
   \<and> data_files users_db (data_file_path users_schema) = None
   \<and> deleteRecord users_db ''users'' ''id'' (IntV 5)
       = (Inr False,
          users_db\<lparr>cerr := cerr users_db @ [''Data file not found: '' @ data_file_path users_schema]\<rparr>)"
proof -
  have content: "data_files users_db2 (data_file_path users_schema) = Some (ann_bytes @ amy_bytes)"
    by (simp add: users_db2_eq users_paths)
  have nomatch: "\<forall>(offset, r) \<in> set [(0, ann), (12, amy)]. \<not> matches_key ''id'' (IntV 5) r"
    by (simp add: users_matches)
  have nofile: "data_files users_db (data_file_path users_schema) = None"
    by (simp add: users_db_def)
  note full = rewrite_without_match [OF users_db2_table, of "ann_bytes @ amy_bytes"
      "[(0, ann), (12, amy)]" "''id''" "IntV 5" "[''ok'' \<mapsto> BoolV True]",
      THEN conjunct1, THEN mp, OF conjI [OF users_paths(5) conjI [OF content conjI [OF read_users nomatch]]]]
  note empty = rewrite_without_match [OF users_table, of _ _ "''id''" "IntV 5",
      THEN conjunct2, THEN mp, OF nofile, THEN conjunct2]
  from users_db2_table users_paths(5) content read_users users_matches(5,6)
    full [THEN conjunct1] full [THEN conjunct2, THEN conjunct1] users_table nofile empty
  show ?thesis by (intro conjI)
qed

section \<open>Index maintenance\<close>







lemma getAllRecords_state: "getAllRecords st table_name = (Inr rs, st') \<Longrightarrow>
    fs_ops st' = fs_ops st \<and> indexes st' = indexes st \<and> index_files st' = index_files st
    \<and> data_files st' = data_files st"
  by (auto simp: getAllRecords_def log_err_def Let_def split: option.splits prod.splits)





lemma users_delete_ann:
  "deleteRecord users_db2 ''users'' ''ok'' (BoolV True) =
     (Inr True,
      \<lparr>tables = [users_schema, notes_schema],
       indexes = [''users'' \<mapsto> ''users.idx''],
       data_files = [''users.dat'' \<mapsto> amy_bytes],
       index_files = [''users.idx'' \<mapsto> []],
       fs_ops = [Rename ''users.dat.tmp'' ''users.dat'', Rename ''users.idx.tmp'' ''users.idx''],
       cerr = []\<rparr>)"
proof -
  have lp: "delete_loop (columns users_schema) ''id'' ''ok'' (BoolV True) [(0, ann), (12, amy)]
              ([], False, [], Map.empty) = ((amy_bytes, True, [1], [12 \<mapsto> 0]), None)"
    by (simp add: users_matches save_amy users_ids)
  have tbl: "find_table st ''users'' = Some users_schema" if "tables st = [users_schema, notes_schema]" for st
    using that by (simp add: find_table_def users_schema_def)
  have reindex: "delete_reindex ''id'' [(1, 0), (1, 12)] [12 \<mapsto> 0] [amy] [] = ([], None)"
    by (simp add: users_ids tree_search_def)
  show ?thesis
    unfolding users_db2_eq
    by (simp add: deleteRecord_def tbl users_paths read_users lp Let_def getAllRecords_def
        open_tree_def read_amy tree_at_def reindex replace_index_def
        del: delete_loop.simps delete_reindex.simps)
qed






section \<open>Search\<close>





lemma users_search_after_delete:
  "searchRecords_index users_schema amy_bytes [] (IntV 1) = Inr []"
  "searchRecords_scan users_schema amy_bytes ''id'' (IntV 1) = Inr [amy]"
  "searchRecords_index users_schema amy_bytes [] (StrV ''1'') = Inl BadVariantAccess"
  "searchRecords_scan users_schema amy_bytes ''id'' (StrV ''1'') = Inr []"
  by (simp_all add: searchRecords_index_def searchRecords_scan_def tree_search_def read_amy
      users_matches matches_key_def amy_def fv_eq_def get2_def)





text \<open>
  Claim C6 fails on the code. After the two records with key 1 have been
  inserted and the first has been deleted through its \<^verbatim>\<open>ok\<close> column, the
  rebuilt index is empty while the data file holds the second record: the
  index-assisted lookup of key 1 returns nothing, the sequential scan returns
  the record. And for a key value that is not an integer the index-assisted
  lookup throws where the scan returns the empty list.
\<close>

theorem searchRecords_paths_disagree:
  "fst (insertRecord users_db ''users'' ann) = Inr True
   \<and> fst (insertRecord (snd (insertRecord users_db ''users'' ann)) ''users'' amy) = Inr True
   \<and> fst (deleteRecord users_db2 ''users'' ''ok'' (BoolV True)) = Inr True
   \<and> data_files (snd (deleteRecord users_db2 ''users'' ''ok'' (BoolV True))) ''users.dat''
       = Some amy_bytes
   \<and> index_files (snd (deleteRecord users_db2 ''users'' ''ok'' (BoolV True))) ''users.idx'' = Some []
   \<and> indexes (snd (deleteRecord users_db2 ''users'' ''ok'' (BoolV True))) ''users'' = Some ''users.idx''
   \<and> searchRecords (snd (deleteRecord users_db2 ''users'' ''ok'' (BoolV True))) ''users'' ''id'' (IntV 1)
       = (searchRecords_index users_schema amy_bytes [] (IntV 1),
          snd (deleteRecord users_db2 ''users'' ''ok'' (BoolV True)))
   \<and> searchRecords_index users_schema amy_bytes [] (IntV 1) = Inr []
   \<and> searchRecords_scan users_schema amy_bytes ''id'' (IntV 1) = Inr [amy]
   \<and> mset ([] :: Record list) \<noteq> mset [amy]
   \<and> searchRecords_index users_schema amy_bytes [] (StrV ''1'') = Inl BadVariantAccess
   \<and> searchRecords_scan users_schema amy_bytes ''id'' (StrV ''1'') = Inr []"
proof -
  have tbl: "find_table st ''users'' = Some users_schema" if "tables st = [users_schema, notes_schema]" for st
    using that by (simp add: find_table_def users_schema_def)
  have pkcol: "list_ex (\<lambda>column. name column = ''id'' \<and> is_primary_key column) (columns users_schema)"
    by (simp add: users_schema_def)
  have pk_ann: "insert_primary_key users_schema ann = PkValue 1"
    and pk_amy: "insert_primary_key users_schema amy = PkValue 1"
    by (simp_all add: insert_primary_key_def users_schema_def ann_def amy_def)
  have first: "fst (insertRecord users_db ''users'' ann) = Inr True"
    by (simp add: insertRecord_def users_table pk_ann save_ann Let_def)
      (simp add: users_db_def createIndex_def users_pk users_schema_def open_tree_def)
  have st1: "tables (snd (insertRecord users_db ''users'' ann)) = [users_schema, notes_schema]"
    "indexes (snd (insertRecord users_db ''users'' ann)) ''users'' = Some ''users.idx''"
    by (simp_all add: insertRecord_def users_table pk_ann save_ann Let_def)
      (simp_all add: users_db_def createIndex_def users_pk users_schema_def open_tree_def)
  have second: "fst (insertRecord (snd (insertRecord users_db ''users'' ann)) ''users'' amy) = Inr True"
    by (simp add: insertRecord_def [of "snd (insertRecord users_db ''users'' ann)"] tbl [OF st1(1)]
        pk_amy save_amy Let_def st1(2))
  have looked: "searchRecords (snd (deleteRecord users_db2 ''users'' ''ok'' (BoolV True))) ''users'' ''id'' (IntV 1)
       = (searchRecords_index users_schema amy_bytes [] (IntV 1),
          snd (deleteRecord users_db2 ''users'' ''ok'' (BoolV True)))"
    by (simp add: users_delete_ann searchRecords_def tbl users_paths pkcol tree_at_def Let_def)
  from first second looked show ?thesis
    by (simp add: users_delete_ann users_search_after_delete)
qed

section \<open>Statements: properties\<close>






end
